theory Spec2Isabelle
  imports Complex_Main "HOL-Library.Sublist"
begin

unbundle bit_operations_syntax

section \<open>Python values, exceptions and the external libraries\<close>

text \<open>
  The two programs verified here are \<^verbatim>\<open>daemon_lekiwi.py\<close> (class
  \<^verbatim>\<open>DaemonLeKiwiRobot\<close>) and the control loop of \<^verbatim>\<open>run_mobile_so100.py\<close>.
  Exceptions are values of the type \<open>error\<close>; a function that may raise returns
  \<open>error + 'a\<close> with \<open>Inl\<close> for the exception. A function that mutates \<open>self\<close> takes
  the object and returns it updated, also when it raises.

  Python floats are idealised as real numbers: rounding errors, overflow, infinities and
  NaN of IEEE arithmetic are not represented, except that an operation which would
  produce NaN from finite inputs (a division by zero) is written as the exception that
  the following integer conversion raises.
\<close>

datatype error =
    DeviceAlreadyConnectedError
  | DeviceNotConnectedError
  | AttributeError
  | TypeError
  | KeyError
  | ValueError
  | LinAlgError
  | RuntimeError
  | JSONDecodeError

text \<open>
  The value \<^verbatim>\<open>json.loads\<close> returns. A dict lists its items in insertion order; its
  keys are distinct.
\<close>

datatype json =
    JNull
  | JBool bool
  | JInt int
  | JFloat real
  | JStr string
  | JList "json list"
  | JDict "(string \<times> json) list"

text \<open>Truth value of an object in a condition (\<^verbatim>\<open>if image_b64:\<close>).\<close>

fun truthy :: "json \<Rightarrow> bool" where
  "truthy JNull = False"
| "truthy (JBool b) = b"
| "truthy (JInt n) = (n \<noteq> 0)"
| "truthy (JFloat x) = (x \<noteq> 0)"
| "truthy (JStr s) = (s \<noteq> [])"
| "truthy (JList xs) = (xs \<noteq> [])"
| "truthy (JDict kvs) = (kvs \<noteq> [])"

text \<open>\<^verbatim>\<open>obj.get(key, default)\<close>: only a dict has the method.\<close>

fun py_get :: "json \<Rightarrow> string \<Rightarrow> json \<Rightarrow> error + json" where
  "py_get (JDict kvs) k d = Inr (case map_of kvs k of None \<Rightarrow> d | Some v \<Rightarrow> v)"
| "py_get _ k d = Inl AttributeError"

text \<open>\<^verbatim>\<open>obj.items()\<close>.\<close>

fun py_items :: "json \<Rightarrow> error + (string \<times> json) list" where
  "py_items (JDict kvs) = Inr kvs"
| "py_items _ = Inl AttributeError"

text \<open>\<^verbatim>\<open>key in obj\<close> for a string key, and \<^verbatim>\<open>obj[key]\<close>.\<close>

fun py_contains :: "json \<Rightarrow> string \<Rightarrow> error + bool" where
  "py_contains (JDict kvs) k = Inr (map_of kvs k \<noteq> None)"
| "py_contains (JList xs) k = Inr (JStr k \<in> set xs)"
| "py_contains (JStr s) k = Inr (sublist k s)"
| "py_contains _ k = Inl TypeError"

fun py_subscript :: "json \<Rightarrow> string \<Rightarrow> error + json" where
  "py_subscript (JDict kvs) k = (case map_of kvs k of None \<Rightarrow> Inl KeyError | Some v \<Rightarrow> Inr v)"
| "py_subscript _ k = Inl TypeError"

text \<open>
  A tensor of numbers: its shape and its elements in row-major order. A tensor of
  shape \<open>[n]\<close> has one dimension and \<open>n\<close> elements; the shape \<open>[]\<close> is the one of a
  single number.
\<close>

datatype tensor = Tensor "nat list" "real list"

text \<open>
  \<^verbatim>\<open>torch.cat((a, b), dim=0)\<close> for a tensor \<open>b\<close> of one dimension, as the wheel state
  is: it raises \<^verbatim>\<open>RuntimeError\<close> unless \<open>a\<close> has one dimension too.
\<close>

fun torch_cat :: "tensor \<Rightarrow> tensor \<Rightarrow> error + tensor" where
  "torch_cat (Tensor [n] xs) (Tensor [m] ys) = Inr (Tensor [n + m] (xs @ ys))"
| "torch_cat a b = Inl RuntimeError"

text \<open>
  The libraries the programs call are parameters of the model: nothing is assumed about
  what they return. Both programs use
  \<^item> \<open>json_loads\<close>, which is \<^verbatim>\<open>json.loads\<close>, and
  \<^item> \<open>int_of_str\<close>, which is \<^verbatim>\<open>int\<close> applied to a string.
  The daemon uses
  \<^item> \<open>imdecode_b64\<close>, the chain \<^verbatim>\<open>base64.b64decode\<close>, \<^verbatim>\<open>np.frombuffer\<close>,
    \<^verbatim>\<open>cv2.imdecode\<close> applied to one image payload: it raises, or returns \<open>None\<close>
    (no image could be decoded), or a frame;
  \<^item> \<open>torch_tensor\<close>, which is \<^verbatim>\<open>torch.tensor(_, dtype=torch.float32)\<close>;
  \<^item> \<open>actuators_read\<close>, \<open>actuators_write\<close> and \<open>ensure_safe_goal_position\<close>, the
    calls \<^verbatim>\<open>send_action\<close> makes.
  The remote agent uses
  \<^item> \<open>bus_write\<close>, which is \<^verbatim>\<open>motors_bus.write("Goal_Position", pos, motor)\<close>, and
  \<^item> \<open>set_velocity\<close>, which is \<^verbatim>\<open>robot.set_velocity\<close>;
  both return the exception they raise, if any.
\<close>

record py =
  json_loads :: "string \<Rightarrow> error + json"
  int_of_str :: "string \<Rightarrow> error + int"

record 'f lib = py +
  imdecode_b64 :: "json \<Rightarrow> error + 'f option"
  torch_tensor :: "json \<Rightarrow> error + tensor"
  actuators_read :: "error + real list"
  actuators_write :: "real list \<Rightarrow> error option"
  ensure_safe_goal_position :: "real list \<Rightarrow> real list \<Rightarrow> real \<Rightarrow> error + real list"

record bus = py +
  bus_write :: "string \<Rightarrow> json \<Rightarrow> error option"
  set_velocity :: "int list \<Rightarrow> error option"

section \<open>Kinematics\<close>

definition steps_per_deg :: real where
  "steps_per_deg = 4096 / 360"

text \<open>Python's \<^verbatim>\<open>round\<close> with one argument: to the nearest integer, a tie to the even one.\<close>

definition py_round :: "real \<Rightarrow> int" where
  "py_round x =
     (let f = \<lfloor>x\<rfloor>; d = x - of_int f
      in if d < 1 / 2 then f
         else if 1 / 2 < d then f + 1
         else if even f then f else f + 1)"

definition degps_to_raw :: "real \<Rightarrow> int" where
  "degps_to_raw degps =
     (let speed_in_steps = \<bar>degps\<bar> * steps_per_deg;
          speed_int = py_round speed_in_steps;
          speed_int = (if speed_int > 0x7FFF then 0x7FFF else speed_int)
      in if degps < 0 then speed_int OR 0x8000 else speed_int AND 0x7FFF)"

definition raw_to_degps :: "int \<Rightarrow> real" where
  "raw_to_degps raw_speed =
     (let magnitude = raw_speed AND 0x7FFF;
          degps = of_int magnitude / steps_per_deg
      in if raw_speed AND 0x8000 \<noteq> 0 then - degps else degps)"

text \<open>\<^verbatim>\<open>np.radians\<close>, and the wheel mounting angles with the offset of -90 degrees.\<close>

definition radians :: "real \<Rightarrow> real" where
  "radians d = d * (pi / 180)"

definition angles :: "real list" where
  "angles = map radians (map (\<lambda>a. a - 90) [240, 120, 0])"

text \<open>The kinematic matrix \<open>m\<close>, a list of rows, and \<^verbatim>\<open>m.dot(v)\<close>.\<close>

definition kin_matrix :: "real \<Rightarrow> real list list" where
  "kin_matrix base_radius = map (\<lambda>a. [cos a, sin a, base_radius]) angles"

definition dot :: "real list list \<Rightarrow> real list \<Rightarrow> real list" where
  "dot m v = map (\<lambda>row. sum_list (map2 (*) row v)) m"

text \<open>\<^verbatim>\<open>max\<close> of a list that is not empty.\<close>

fun py_max :: "real list \<Rightarrow> real" where
  "py_max [] = 0"
| "py_max (x # xs) = fold max xs x"

text \<open>
  \<^verbatim>\<open>body_to_wheel_raw\<close> in three stages, named after its local variables:
  \<open>wheel_degps\<close> is the wheels' angular speed in deg/s before the scaling,
  \<open>raw_floats\<close> the naive raw magnitudes, and \<open>scaled_degps\<close> the value of
  \<^verbatim>\<open>wheel_degps\<close> after the block under the comment \<^verbatim>\<open># Scaling\<close>.

  With \<open>wheel_radius = 0\<close> every wheel speed is infinite or NaN, and with
  \<open>max_raw_computed = 0 > max_raw\<close> the scale is infinite and every scaled speed NaN: in
  both cases the conversion to an integer in \<^verbatim>\<open>degps_to_raw\<close> raises.
\<close>

definition wheel_degps :: "real \<Rightarrow> real \<Rightarrow> real \<Rightarrow> real \<Rightarrow> real \<Rightarrow> real list" where
  "wheel_degps x_cmd y_cmd theta_cmd wheel_radius base_radius =
     (let theta_rad = theta_cmd * (pi / 180);
          velocity_vector = [x_cmd, y_cmd, theta_rad];
          m = kin_matrix base_radius;
          wheel_linear_speeds = dot m velocity_vector;
          wheel_angular_speeds = map (\<lambda>v. v / wheel_radius) wheel_linear_speeds
      in map (\<lambda>w. w * (180 / pi)) wheel_angular_speeds)"

definition raw_floats :: "real list \<Rightarrow> real list" where
  "raw_floats degs = map (\<lambda>degps. \<bar>degps\<bar> * steps_per_deg) degs"

definition scaled_degps :: "real list \<Rightarrow> int \<Rightarrow> error + real list" where
  "scaled_degps degs max_raw =
     (let max_raw_computed = py_max (raw_floats degs)
      in if max_raw_computed > of_int max_raw then
           (if max_raw_computed = 0 then Inl ValueError
            else (let scale = of_int max_raw / max_raw_computed
                  in Inr (map (\<lambda>d. d * scale) degs)))
         else Inr degs)"

definition body_to_wheel_raw :: "real \<Rightarrow> real \<Rightarrow> real \<Rightarrow> real \<Rightarrow> real \<Rightarrow> int \<Rightarrow> error + json" where
  "body_to_wheel_raw x_cmd y_cmd theta_cmd wheel_radius base_radius max_raw =
     (if wheel_radius = 0 then Inl ValueError
      else
        (case scaled_degps (wheel_degps x_cmd y_cmd theta_cmd wheel_radius base_radius) max_raw of
           Inl e \<Rightarrow> Inl e
         | Inr degs \<Rightarrow>
             (let wheel_raw = map degps_to_raw degs
              in Inr (JDict [(''left_wheel'', JInt (wheel_raw ! 0)),
                             (''back_wheel'', JInt (wheel_raw ! 1)),
                             (''right_wheel'', JInt (wheel_raw ! 2))]))))"

text \<open>\<^verbatim>\<open>int(v)\<close> for a value read from a message: a float is truncated towards zero.\<close>

fun py_int :: "'a py_scheme \<Rightarrow> json \<Rightarrow> error + int" where
  "py_int L (JInt n) = Inr n"
| "py_int L (JBool b) = Inr (if b then 1 else 0)"
| "py_int L (JFloat x) = Inr (if 0 \<le> x then \<lfloor>x\<rfloor> else \<lceil>x\<rceil>)"
| "py_int L (JStr s) = int_of_str L s"
| "py_int L _ = Inl TypeError"

text \<open>\<^verbatim>\<open>np.linalg.inv\<close> of a 3 by 3 matrix: the adjugate over the determinant.\<close>

fun inv3 :: "real list list \<Rightarrow> error + real list list" where
  "inv3 [[a, b, c], [d, e, f], [g, h, i]] =
     (let det = a * (e * i - f * h) - b * (d * i - f * g) + c * (d * h - e * g)
      in if det = 0 then Inl LinAlgError
         else Inr [[(e * i - f * h) / det, (c * h - b * i) / det, (b * f - c * e) / det],
                   [(f * g - d * i) / det, (a * i - c * g) / det, (c * d - a * f) / det],
                   [(d * h - e * g) / det, (b * g - a * h) / det, (a * e - b * d) / det]])"
| "inv3 _ = Inl LinAlgError"

text \<open>The list \<^verbatim>\<open>raw_list\<close> of \<^verbatim>\<open>wheel_raw_to_body\<close>: a missing key reads as 0.\<close>

definition raw_list :: "'a py_scheme \<Rightarrow> json \<Rightarrow> error + int list" where
  "raw_list L wheel_raw =
     (case py_get wheel_raw ''left_wheel'' (JInt 0) of Inl e \<Rightarrow> Inl e | Inr l \<Rightarrow>
      (case py_int L l of Inl e \<Rightarrow> Inl e | Inr li \<Rightarrow>
      (case py_get wheel_raw ''back_wheel'' (JInt 0) of Inl e \<Rightarrow> Inl e | Inr b \<Rightarrow>
      (case py_int L b of Inl e \<Rightarrow> Inl e | Inr bi \<Rightarrow>
      (case py_get wheel_raw ''right_wheel'' (JInt 0) of Inl e \<Rightarrow> Inl e | Inr r \<Rightarrow>
      (case py_int L r of Inl e \<Rightarrow> Inl e | Inr ri \<Rightarrow> Inr [li, bi, ri]))))))"

definition wheel_raw_to_body :: "'a py_scheme \<Rightarrow> json \<Rightarrow> real \<Rightarrow> real \<Rightarrow> error + real \<times> real \<times> real" where
  "wheel_raw_to_body L wheel_raw wheel_radius base_radius =
     (case raw_list L wheel_raw of
        Inl e \<Rightarrow> Inl e
      | Inr raws \<Rightarrow>
          (let degs = map raw_to_degps raws;
               wheel_radps = map (\<lambda>d. d * (pi / 180)) degs;
               wheel_linear_speeds = map (\<lambda>w. w * wheel_radius) wheel_radps;
               m = kin_matrix base_radius
           in case inv3 m of
                Inl e \<Rightarrow> Inl e
              | Inr m_inv \<Rightarrow>
                  (let velocity_vector = dot m_inv wheel_linear_speeds;
                       x_cmd = velocity_vector ! 0;
                       y_cmd = velocity_vector ! 1;
                       theta_rad = velocity_vector ! 2;
                       theta_cmd = theta_rad * (180 / pi)
                   in Inr (x_cmd, y_cmd, theta_cmd))))"

section \<open>The daemon: state and connection lifecycle\<close>

datatype sock_kind = PUSH | PULL

record socket =
  sock_kind :: sock_kind
  sock_ip :: string
  sock_port :: int
  sock_conflate :: bool
  sock_closed :: bool

record camera =
  height :: nat
  width :: nat
  channels :: nat

text \<open>
  The fields of \<^verbatim>\<open>DaemonLeKiwiRobot\<close> that its methods read or write. \<open>zmq_context\<close>
  is \<open>None\<close> before the first connect, and \<open>Some t\<close> for a context that is terminated
  iff \<open>t\<close> holds. \<open>cameras\<close> is not set by this class: it stands for what the base class
  provides.
\<close>

record 'f daemon =
  remote_ip :: string
  port_zmq_cmd :: int
  port_zmq_observations :: int
  max_relative_target :: "real option"
  cameras :: "(string \<times> camera) list"
  zmq_context :: "bool option"
  zmq_cmd_socket :: "socket option"
  zmq_observation_socket :: "socket option"
  last_frames :: "string \<rightharpoonup> 'f"
  last_present_speed :: json
  last_remote_arm_state :: tensor
  is_connected :: bool

text \<open>\<^verbatim>\<open>torch.zeros(6, dtype=torch.float32)\<close>.\<close>

definition torch_zeros6 :: tensor where
  "torch_zeros6 = Tensor [6] (replicate 6 0)"

text \<open>\<^verbatim>\<open>__init__\<close>, from the fields of the configuration.\<close>

definition init :: "string \<Rightarrow> int \<Rightarrow> int \<Rightarrow> real option \<Rightarrow> (string \<times> camera) list \<Rightarrow> 'f daemon" where
  "init ip cmd_port obs_port mrt cams =
     \<lparr> remote_ip = ip, port_zmq_cmd = cmd_port, port_zmq_observations = obs_port,
       max_relative_target = mrt, cameras = cams,
       zmq_context = None, zmq_cmd_socket = None, zmq_observation_socket = None,
       last_frames = Map.empty, last_present_speed = JDict [],
       last_remote_arm_state = torch_zeros6, is_connected = False \<rparr>"

definition connect :: "'f daemon \<Rightarrow> (error + unit) \<times> 'f daemon" where
  "connect self =
     (if is_connected self then (Inl DeviceAlreadyConnectedError, self)
      else (Inr (),
        self\<lparr> zmq_context := Some False,
              zmq_cmd_socket := Some \<lparr> sock_kind = PUSH, sock_ip = remote_ip self,
                sock_port = port_zmq_cmd self, sock_conflate = True, sock_closed = False \<rparr>,
              zmq_observation_socket := Some \<lparr> sock_kind = PULL, sock_ip = remote_ip self,
                sock_port = port_zmq_observations self, sock_conflate = True,
                sock_closed = False \<rparr>,
              is_connected := True \<rparr>))"

definition disconnect :: "'f daemon \<Rightarrow> (error + unit) \<times> 'f daemon" where
  "disconnect self =
     (if \<not> is_connected self then (Inl DeviceNotConnectedError, self)
      else (Inr (),
        self\<lparr> zmq_observation_socket :=
                map_option (\<lambda>s. s\<lparr>sock_closed := True\<rparr>) (zmq_observation_socket self),
              zmq_cmd_socket :=
                map_option (\<lambda>s. s\<lparr>sock_closed := True\<rparr>) (zmq_cmd_socket self),
              zmq_context := map_option (\<lambda>_. True) (zmq_context self),
              is_connected := False \<rparr>))"

text \<open>
  \<^verbatim>\<open>send_action\<close>. The array is a list of reals; the conversion
  \<^verbatim>\<open>astype(np.int32)\<close> is part of \<open>actuators_write\<close>.
\<close>

definition send_action :: "'f lib \<Rightarrow> 'f daemon \<Rightarrow> real list \<Rightarrow> (error + real list) \<times> 'f daemon" where
  "send_action L self action =
     (if \<not> is_connected self then (Inl DeviceNotConnectedError, self)
      else
        (case (case max_relative_target self of
                 None \<Rightarrow> Inr action
               | Some mrt \<Rightarrow>
                   (case actuators_read L of
                      Inl e \<Rightarrow> Inl e
                    | Inr present_pos \<Rightarrow> ensure_safe_goal_position L action present_pos mrt)) of
           Inl e \<Rightarrow> (Inl e, self)
         | Inr goal_pos \<Rightarrow>
             (case actuators_write L goal_pos of
                Some e \<Rightarrow> (Inl e, self)
              | None \<Rightarrow> (Inr goal_pos, self))))"

section \<open>The daemon: observation reconstruction\<close>

type_synonym 'f snapshot = "(string \<rightharpoonup> 'f) \<times> json \<times> tensor"

text \<open>The three last-known caches, as \<^verbatim>\<open>get_data\<close> returns them.\<close>

definition cached :: "'f daemon \<Rightarrow> 'f snapshot" where
  "cached self = (last_frames self, last_present_speed self, last_remote_arm_state self)"

text \<open>
  The loop over \<^verbatim>\<open>images_dict.items()\<close>: a payload that is falsy, or for which
  \<^verbatim>\<open>cv2.imdecode\<close> returns \<open>None\<close>, adds nothing to \<open>frames\<close>; an exception leaves
  the loop.
\<close>

fun convert_images :: "'f lib \<Rightarrow> (string \<times> json) list \<Rightarrow> (string \<rightharpoonup> 'f) \<Rightarrow> error + (string \<rightharpoonup> 'f)" where
  "convert_images L [] frames = Inr frames"
| "convert_images L ((cam_name, image_b64) # rest) frames =
     (if truthy image_b64 then
        (case imdecode_b64 L image_b64 of
           Inl e \<Rightarrow> Inl e
         | Inr None \<Rightarrow> convert_images L rest frames
         | Inr (Some frame_candidate) \<Rightarrow>
             convert_images L rest (frames(cam_name \<mapsto> frame_candidate)))
      else convert_images L rest frames)"

text \<open>
  The body of the \<^verbatim>\<open>try\<close> block of \<^verbatim>\<open>get_data\<close>. It returns the exception or
  the snapshot, and the object as it is at that moment. The test
  \<^verbatim>\<open>frames is not None\<close> is always true, since \<open>frames\<close> is a dict.
\<close>

definition decode_message :: "'f lib \<Rightarrow> 'f daemon \<Rightarrow> string \<Rightarrow> (error + 'f snapshot) \<times> 'f daemon" where
  "decode_message L self last_msg =
     (case json_loads L last_msg of
        Inl e \<Rightarrow> (Inl e, self)
      | Inr observation \<Rightarrow>
     (case py_get observation ''images'' (JDict []) of
        Inl e \<Rightarrow> (Inl e, self)
      | Inr images_dict \<Rightarrow>
     (case py_get observation ''present_speed'' (JDict []) of
        Inl e \<Rightarrow> (Inl e, self)
      | Inr new_speed \<Rightarrow>
     (case py_get observation ''follower_arm_state'' JNull of
        Inl e \<Rightarrow> (Inl e, self)
      | Inr new_arm_state \<Rightarrow>
     (case py_items images_dict of
        Inl e \<Rightarrow> (Inl e, self)
      | Inr items \<Rightarrow>
     (case convert_images L items Map.empty of
        Inl e \<Rightarrow> (Inl e, self)
      | Inr frames \<Rightarrow>
          if new_arm_state \<noteq> JNull then
            (let self1 = self\<lparr>last_frames := frames\<rparr> in
             case torch_tensor L new_arm_state of
               Inl e \<Rightarrow> (Inl e, self1)
             | Inr remote_arm_state_tensor \<Rightarrow>
                 (Inr (frames, new_speed, remote_arm_state_tensor),
                  self1\<lparr>last_remote_arm_state := remote_arm_state_tensor,
                        last_present_speed := new_speed\<rparr>))
          else (Inr (last_frames self, last_present_speed self, last_remote_arm_state self),
                self)))))))"

text \<open>
  The drain loop: \<open>pending\<close> are the messages \<^verbatim>\<open>recv_string(zmq.NOBLOCK)\<close> returns
  before it raises \<^verbatim>\<open>zmq.Again\<close>.
\<close>

fun drain :: "string list \<Rightarrow> string option \<Rightarrow> string option" where
  "drain [] last_msg = last_msg"
| "drain (obs_string # rest) last_msg = drain rest (Some obs_string)"

text \<open>
  \<^verbatim>\<open>get_data\<close>. \<open>ready\<close> says whether the 15 ms poll reported \<^verbatim>\<open>zmq.POLLIN\<close> for
  the observation socket.
\<close>

definition get_data :: "'f lib \<Rightarrow> 'f daemon \<Rightarrow> bool \<Rightarrow> string list \<Rightarrow> 'f snapshot \<times> 'f daemon" where
  "get_data L self ready pending =
     (if \<not> ready then (cached self, self)
      else
        (case drain pending None of
           None \<Rightarrow> (cached self, self)
         | Some last_msg \<Rightarrow>
             if last_msg = [] then (cached self, self)
             else
               (case decode_message L self last_msg of
                  (Inl e, self') \<Rightarrow> (cached self', self')
                | (Inr snap, self') \<Rightarrow> (snap, self'))))"

text \<open>
  What \<^verbatim>\<open>get_observation\<close> stores in \<^verbatim>\<open>obs_dict\<close>: a tensor of numbers, the
  tensor of a decoded frame, or the tensor of \<^verbatim>\<open>np.zeros((height, width, channels))\<close>.
\<close>

datatype 'f obs_value = Numbers tensor | Frame 'f | Zeros nat nat nat

definition OBS_STATE :: string where
  "OBS_STATE = ''observation.state''"

definition OBS_IMAGES :: string where
  "OBS_IMAGES = ''observation.images''"

text \<open>The loop over \<^verbatim>\<open>self.cameras.items()\<close>.\<close>

fun camera_loop :: "(string \<rightharpoonup> 'f) \<Rightarrow> (string \<times> camera) list \<Rightarrow> (string \<rightharpoonup> 'f obs_value) \<Rightarrow> (string \<rightharpoonup> 'f obs_value)" where
  "camera_loop frames [] obs_dict = obs_dict"
| "camera_loop frames ((cam_name, cam) # rest) obs_dict =
     (let frame = (case frames cam_name of
                     None \<Rightarrow> Zeros (height cam) (width cam) (channels cam)
                   | Some f \<Rightarrow> Frame f)
      in camera_loop frames rest (obs_dict(OBS_IMAGES @ ''.'' @ cam_name \<mapsto> frame)))"

definition get_observation :: "'f lib \<Rightarrow> 'f daemon \<Rightarrow> bool \<Rightarrow> string list \<Rightarrow> (error + (string \<rightharpoonup> 'f obs_value)) \<times> 'f daemon" where
  "get_observation L self ready pending =
     (if \<not> is_connected self then (Inl DeviceNotConnectedError, self)
      else
        (case get_data L self ready pending of
           ((frames, present_speed, remote_arm_state_tensor), self') \<Rightarrow>
             (case wheel_raw_to_body L present_speed (5 / 100) (125 / 1000) of
                Inl e \<Rightarrow> (Inl e, self')
              | Inr (x, y, theta) \<Rightarrow>
                  (let body_state_mm = [x * 1000, y * 1000, theta];
                       wheel_state_tensor = Tensor [3] body_state_mm
                   in case torch_cat remote_arm_state_tensor wheel_state_tensor of
                        Inl e \<Rightarrow> (Inl e, self')
                      | Inr combined_state_tensor \<Rightarrow>
                          (let obs_dict = [OBS_STATE \<mapsto> Numbers combined_state_tensor]
                           in (Inr (camera_loop frames (cameras self') obs_dict),
                               self'))))))"

section \<open>The remote agent: command dispatch and watchdog\<close>

text \<open>
  The part of the control loop of \<^verbatim>\<open>run_mobile_so100.py\<close> from the reading of the
  clock to the watchdog. The rest of the loop body reads sensors and publishes an
  observation; it sends nothing to the motors.

  The calls the loop makes on the motors, and its prints, are recorded in order.
\<close>

datatype log = ERROR_invalid_arm_positions | WARNING_arm_positions_count | Error_parsing_message

datatype event =
    Goal_Position string json
  | Set_Velocity "int list"
  | Stop
  | Print log

definition arm_motor_ids :: "string list" where
  "arm_motor_ids =
     [''shoulder_pan'', ''shoulder_lift'', ''elbow_flex'', ''wrist_flex'', ''wrist_roll'',
      ''gripper'']"

text \<open>
  A block of statements inside the \<^verbatim>\<open>try\<close> returns the calls it made and the
  exception that ended it, if any.
\<close>

fun write_loop :: "bus \<Rightarrow> (string \<times> json) list \<Rightarrow> event list \<times> error option" where
  "write_loop B [] = ([], None)"
| "write_loop B ((motor, pos) # rest) =
     (case bus_write B motor pos of
        Some e \<Rightarrow> ([Goal_Position motor pos], Some e)
      | None \<Rightarrow> (case write_loop B rest of (evs, r) \<Rightarrow> (Goal_Position motor pos # evs, r)))"

definition arm_positions_block :: "bus \<Rightarrow> json \<Rightarrow> event list \<times> error option" where
  "arm_positions_block B data =
     (case py_contains data ''arm_positions'' of
        Inl e \<Rightarrow> ([], Some e)
      | Inr False \<Rightarrow> ([], None)
      | Inr True \<Rightarrow>
          (case py_subscript data ''arm_positions'' of
             Inl e \<Rightarrow> ([], Some e)
           | Inr arm_positions \<Rightarrow>
               (case arm_positions of
                  JList ps \<Rightarrow>
                    if length ps < length arm_motor_ids then
                      ([Print WARNING_arm_positions_count], None)
                    else write_loop B (zip arm_motor_ids ps)
                | _ \<Rightarrow> ([Print ERROR_invalid_arm_positions], None))))"

text \<open>
  The pairs the write loop passes to \<^verbatim>\<open>motors_bus.write\<close>: those before the first
  write that raises, and that one.
\<close>

definition attempted :: "bus \<Rightarrow> (string \<times> json) list \<Rightarrow> (string \<times> json) list" where
  "attempted B mps =
     takeWhile (\<lambda>(motor, pos). bus_write B motor pos = None) mps @
     take 1 (dropWhile (\<lambda>(motor, pos). bus_write B motor pos = None) mps)"

text \<open>The list comprehension over \<^verbatim>\<open>[1, 2, 3]\<close>.\<close>

fun command_speeds :: "bus \<Rightarrow> json \<Rightarrow> string list \<Rightarrow> error + int list" where
  "command_speeds B raw_command [] = Inr []"
| "command_speeds B raw_command (key # keys) =
     (case py_get raw_command key (JInt 0) of
        Inl e \<Rightarrow> Inl e
      | Inr v \<Rightarrow>
          (case py_int B v of
             Inl e \<Rightarrow> Inl e
           | Inr n \<Rightarrow>
               (case command_speeds B raw_command keys of
                  Inl e \<Rightarrow> Inl e
                | Inr ns \<Rightarrow> Inr (n # ns))))"

text \<open>
  The third component says whether the block reached \<^verbatim>\<open>last_cmd_time = now\<close>, that
  is, whether a wheel command was accepted.
\<close>

definition raw_velocity_block :: "bus \<Rightarrow> json \<Rightarrow> event list \<times> error option \<times> bool" where
  "raw_velocity_block B data =
     (case py_contains data ''raw_velocity'' of
        Inl e \<Rightarrow> ([], Some e, False)
      | Inr False \<Rightarrow> ([], None, False)
      | Inr True \<Rightarrow>
          (case py_subscript data ''raw_velocity'' of
             Inl e \<Rightarrow> ([], Some e, False)
           | Inr raw_command \<Rightarrow>
               (case command_speeds B raw_command [''wheel_1'', ''wheel_2'', ''wheel_3''] of
                  Inl e \<Rightarrow> ([], Some e, False)
                | Inr speeds \<Rightarrow>
                    (case set_velocity B speeds of
                       Some e \<Rightarrow> ([Set_Velocity speeds], Some e, False)
                     | None \<Rightarrow> ([Set_Velocity speeds], None, True)))))"

text \<open>
  One message: the \<^verbatim>\<open>try\<close> with its handler, which prints and goes on. The result
  is the calls made and whether a wheel command was accepted.
\<close>

definition process_message :: "bus \<Rightarrow> string \<Rightarrow> event list \<times> bool" where
  "process_message B msg =
     (case json_loads B msg of
        Inl e \<Rightarrow> ([Print Error_parsing_message], False)
      | Inr data \<Rightarrow>
          (case arm_positions_block B data of
             (evs1, Some e) \<Rightarrow> (evs1 @ [Print Error_parsing_message], False)
           | (evs1, None) \<Rightarrow>
               (case raw_velocity_block B data of
                  (evs2, Some e, accepted) \<Rightarrow>
                    (evs1 @ evs2 @ [Print Error_parsing_message], accepted)
                | (evs2, None, accepted) \<Rightarrow> (evs1 @ evs2, accepted))))"













section \<open>Example values\<close>

text \<open>
  A daemon with two cameras, before and after \<^verbatim>\<open>connect\<close>, and after it has cached
  a frame of each camera. Frames are numbers here.
\<close>

definition front_camera :: camera where
  "front_camera = \<lparr>height = 480, width = 640, channels = 3\<rparr>"

definition wrist_camera :: camera where
  "wrist_camera = \<lparr>height = 240, width = 320, channels = 3\<rparr>"

definition daemon0 :: "nat daemon" where
  "daemon0 = init ''192.168.0.2'' 5555 5556 None
     [(''front'', front_camera), (''wrist'', wrist_camera)]"

definition daemon1 :: "nat daemon" where
  "daemon1 = snd (connect daemon0)"

definition daemon2 :: "nat daemon" where
  "daemon2 = daemon1\<lparr>last_frames := [''front'' \<mapsto> 7, ''wrist'' \<mapsto> 8]\<rparr>"

text \<open>
  The base64 text of a BMP image of one pixel (58 bytes: the two headers and a row of
  four bytes), which \<^verbatim>\<open>cv2.imdecode\<close> decodes, and the one of three zero bytes,
  which it returns \<open>None\<close> for.
\<close>

definition bmp_b64 :: string where
  "bmp_b64 = ''Qk06AAAAAAAAADYAAAAoAAAAAQAAAAEAAAABABgAAAAAAAQAAAATCwAAEwsAAAAAAAAAAAAAAAD/AA==''"

definition zeros_b64 :: string where
  "zeros_b64 = ''AAAA''"

text \<open>
  Two observation messages. In the first the payload of the front camera decodes and the
  one of the wrist camera does not; in the second the arm state is a string.
\<close>

definition msg_partial :: string where
  "msg_partial = ''{\"images\": {\"front\": \"'' @ bmp_b64 @ ''\", \"wrist\": \"'' @ zeros_b64 @
     ''\"}, \"present_speed\": {\"1\": 0, \"2\": 0, \"3\": 0}, \"follower_arm_state\": [0, 0, 0, 0, 0, 0]}''"

definition json_partial :: json where
  "json_partial =
     JDict [(''images'', JDict [(''front'', JStr bmp_b64), (''wrist'', JStr zeros_b64)]),
            (''present_speed'', JDict [(''1'', JInt 0), (''2'', JInt 0), (''3'', JInt 0)]),
            (''follower_arm_state'', JList [JInt 0, JInt 0, JInt 0, JInt 0, JInt 0, JInt 0])]"

definition msg_bad_arm :: string where
  "msg_bad_arm = ''{\"follower_arm_state\": \"x\"}''"

definition json_bad_arm :: json where
  "json_bad_arm = JDict [(''follower_arm_state'', JStr ''x'')]"

text \<open>
  Libraries for these messages: \<^verbatim>\<open>json.loads\<close> parses them; \<^verbatim>\<open>cv2.imdecode\<close>
  decodes the BMP image, to an array that is written 11 here, and returns \<open>None\<close> for
  the other payload; \<^verbatim>\<open>torch.tensor\<close> makes a tensor of one dimension of a list of
  numbers and raises \<^verbatim>\<open>TypeError\<close> on a string.
\<close>

definition loads0 :: "string \<Rightarrow> error + json" where
  "loads0 s =
     (if s = msg_bad_arm then Inr json_bad_arm
      else if s = msg_partial then Inr json_partial
      else Inl JSONDecodeError)"

fun numbers :: "json list \<Rightarrow> (real list) option" where
  "numbers [] = Some []"
| "numbers (JInt n # js) = map_option ((#) (of_int n)) (numbers js)"
| "numbers (JFloat x # js) = map_option ((#) x) (numbers js)"
| "numbers (_ # js) = None"

definition lib0 :: "nat lib" where
  "lib0 =
     \<lparr> json_loads = loads0,
       int_of_str = (\<lambda>s. Inl ValueError),
       imdecode_b64 = (\<lambda>p. if p = JStr bmp_b64 then Inr (Some 11) else Inr None),
       torch_tensor = (\<lambda>j. case j of
                        JList xs \<Rightarrow> (case numbers xs of
                                      None \<Rightarrow> Inl TypeError
                                    | Some v \<Rightarrow> Inr (Tensor [length v] v))
                      | _ \<Rightarrow> Inl TypeError),
       actuators_read = Inr [],
       actuators_write = (\<lambda>g. None),
       ensure_safe_goal_position = (\<lambda>g p m. Inr g) \<rparr>"

text \<open>The entry of \<^verbatim>\<open>obs_dict\<close> under a key, when \<^verbatim>\<open>get_observation\<close> returned one.\<close>

fun observed :: "(error + (string \<rightharpoonup> 'f obs_value)) \<times> 'f daemon \<Rightarrow> string \<Rightarrow> 'f obs_value option" where
  "observed (Inr obs_dict, self) key = obs_dict key"
| "observed (Inl e, self) key = None"

text \<open>
  Command messages: arm positions for three motors, for six and for seven, the wheel
  command of the example scenario, and a second wheel command. The bus \<open>bus0\<close> parses
  them, and its motor calls return normally; with \<open>bus1\<close> the write to the third motor
  raises, and so does \<^verbatim>\<open>robot.set_velocity\<close> for the second wheel command.
\<close>

definition msg_three :: string where
  "msg_three = ''{\"arm_positions\": [1, 2, 3]}''"

definition json_three :: json where
  "json_three = JDict [(''arm_positions'', JList [JInt 1, JInt 2, JInt 3])]"

definition msg_six :: string where
  "msg_six = ''{\"arm_positions\": [1, 2, 3, 4, 5, 6]}''"

definition json_six :: json where
  "json_six = JDict [(''arm_positions'', JList [JInt 1, JInt 2, JInt 3, JInt 4, JInt 5, JInt 6])]"

definition msg_seven :: string where
  "msg_seven = ''{\"arm_positions\": [1, 2, 3, 4, 5, 6, 7]}''"

definition json_seven :: json where
  "json_seven = JDict [(''arm_positions'', JList [JInt 1, JInt 2, JInt 3, JInt 4, JInt 5, JInt 6, JInt 7])]"

definition msg_wheels :: string where
  "msg_wheels = ''{\"raw_velocity\": {\"wheel_1\": 100, \"wheel_2\": -100, \"wheel_3\": 0}}''"

definition json_wheels :: json where
  "json_wheels = JDict [(''raw_velocity'',
     JDict [(''wheel_1'', JInt 100), (''wheel_2'', JInt (- 100)), (''wheel_3'', JInt 0)])]"

definition msg_fast :: string where
  "msg_fast = ''{\"raw_velocity\": {\"wheel_1\": 200}}''"

definition json_fast :: json where
  "json_fast = JDict [(''raw_velocity'', JDict [(''wheel_1'', JInt 200)])]"

definition loads1 :: "string \<Rightarrow> error + json" where
  "loads1 s =
     (if s = msg_three then Inr json_three
      else if s = msg_six then Inr json_six
      else if s = msg_seven then Inr json_seven
      else if s = msg_wheels then Inr json_wheels
      else if s = msg_fast then Inr json_fast
      else Inl JSONDecodeError)"

definition bus0 :: bus where
  "bus0 = \<lparr> json_loads = loads1, int_of_str = (\<lambda>s. Inl ValueError),
            bus_write = (\<lambda>motor pos. None), set_velocity = (\<lambda>speeds. None) \<rparr>"

definition bus1 :: bus where
  "bus1 = \<lparr> json_loads = loads1, int_of_str = (\<lambda>s. Inl ValueError),
            bus_write = (\<lambda>motor pos. if motor = ''elbow_flex'' then Some RuntimeError else None),
            set_velocity = (\<lambda>speeds. if speeds = [200, 0, 0] then Some RuntimeError else None) \<rparr>"


section \<open>Facts about the example values\<close>

lemma lib0_loads: "json_loads lib0 = loads0"
  by (simp add: lib0_def)

lemma lib0_imdecode:
  "imdecode_b64 lib0 p = (if p = JStr bmp_b64 then Inr (Some 11) else Inr None)"
  by (simp add: lib0_def)

lemma zeros_not_bmp: "zeros_b64 \<noteq> bmp_b64"
  by (simp add: zeros_b64_def bmp_b64_def)

lemma lib0_tensor_list:
  "torch_tensor lib0 (JList xs) =
     (case numbers xs of None \<Rightarrow> Inl TypeError | Some v \<Rightarrow> Inr (Tensor [length v] v))"
  by (simp add: lib0_def)

lemma lib0_tensor_str: "torch_tensor lib0 (JStr s) = Inl TypeError"
  by (simp add: lib0_def)

lemma loads0_partial: "loads0 msg_partial = Inr json_partial"
  by (simp add: loads0_def msg_partial_def msg_bad_arm_def)

lemma loads0_bad_arm: "loads0 msg_bad_arm = Inr json_bad_arm"
  by (simp add: loads0_def)

lemma loads0_brace: "loads0 ''{'' = Inl JSONDecodeError"
  by (simp add: loads0_def msg_partial_def msg_bad_arm_def)

lemma daemon1_connected: "is_connected daemon1"
  by (simp add: daemon1_def daemon0_def init_def connect_def)

lemma daemon2_connected: "is_connected daemon2"
  by (simp add: daemon2_def daemon1_connected)

section \<open>Connection lifecycle\<close>

text \<open>
  Claim C7. A second \<^verbatim>\<open>connect\<close> on a connected daemon raises
  \<^verbatim>\<open>DeviceAlreadyConnectedError\<close> and leaves the object as it was; on a daemon that is
  not connected, \<^verbatim>\<open>disconnect\<close>, \<^verbatim>\<open>get_observation\<close> and \<^verbatim>\<open>send_action\<close> raise
  \<^verbatim>\<open>DeviceNotConnectedError\<close>, and leave the object as it was.
\<close>

theorem lifecycle_errors:
  "(is_connected self \<longrightarrow> connect self = (Inl DeviceAlreadyConnectedError, self)) \<and>
   (\<not> is_connected self \<longrightarrow>
      disconnect self = (Inl DeviceNotConnectedError, self) \<and>
      get_observation L self ready pending = (Inl DeviceNotConnectedError, self) \<and>
      send_action L self action = (Inl DeviceNotConnectedError, self))"
  by (simp add: connect_def disconnect_def get_observation_def send_action_def)

theorem lifecycle_errors_witness:
  "is_connected daemon1 \<and>
   connect daemon1 = (Inl DeviceAlreadyConnectedError, daemon1) \<and>
   \<not> is_connected daemon0 \<and>
   disconnect daemon0 = (Inl DeviceNotConnectedError, daemon0) \<and>
   get_observation (lib0) daemon0 True [''{}''] =
     (Inl DeviceNotConnectedError, daemon0) \<and>
   send_action (lib0) daemon0 [1, 2, 3] =
     (Inl DeviceNotConnectedError, daemon0)"
proof -
  have c: "is_connected daemon1"
    by (rule daemon1_connected)
  have d: "\<not> is_connected daemon0"
    by (simp add: daemon0_def init_def)
  show ?thesis
    using c d lifecycle_errors [of daemon1]
      lifecycle_errors [of daemon0 lib0 True "[''{}'']" "[1, 2, 3]"]
    by simp
qed

section \<open>Observation fallback\<close>

lemma get_data_returns_cached:
  "get_data L self ready pending = (snap, self') \<Longrightarrow> snap = cached self'"
  by (auto simp: get_data_def decode_message_def cached_def Let_def
      split: if_splits option.splits sum.splits prod.splits)

text \<open>
  Claim C8. When the poll reports no message, \<^verbatim>\<open>get_data\<close> returns the three caches
  and changes nothing; so it does when the poll reports one and none can be received.
  The caches are the snapshot that the previous call returned, whatever that call did.
  No exception is possible: the result is a snapshot.
\<close>

theorem get_data_no_message:
  "get_data L self False pending = (cached self, self) \<and>
   get_data L self True [] = (cached self, self) \<and>
   (get_data L self0 ready0 pending0 = (snap, self) \<longrightarrow> cached self = snap)"
  using get_data_returns_cached [of L self0 ready0 pending0 snap self]
  by (simp add: get_data_def)

theorem get_data_no_message_witness:
  "get_data (lib0) daemon1 True [''{''] = (cached daemon1, daemon1) \<and>
   get_data (lib0) daemon1 False [] = (cached daemon1, daemon1)"
proof -
  have "get_data (lib0) daemon1 True [''{''] = (cached daemon1, daemon1)"
    by (simp add: get_data_def decode_message_def lib0_loads loads0_brace)
  then show ?thesis
    using get_data_no_message [of lib0 daemon1 "[]" daemon1 True
        "[''{'']" "cached daemon1"]
    by simp
qed

section \<open>Raw wheel values\<close>

lemma and_7FFF: "(n::int) AND 0x7FFF = n mod 2 ^ 15"
proof -
  have "(0x7FFF::int) = mask 15" by (simp add: mask_eq_exp_minus_1)
  then show ?thesis by (simp only: take_bit_eq_mask [symmetric] take_bit_eq_mod)
qed

lemma and_7FFF_id: "0 \<le> n \<Longrightarrow> n \<le> 0x7FFF \<Longrightarrow> (n::int) AND 0x7FFF = n"
  by (simp add: and_7FFF)

lemma and_8000_zero: "0 \<le> n \<Longrightarrow> n \<le> 0x7FFF \<Longrightarrow> (n::int) AND 0x8000 = 0"
proof -
  assume "0 \<le> n" "n \<le> 0x7FFF"
  then have "n div 2 ^ 15 = 0" by simp
  then have "\<not> bit n 15" by (simp add: bit_iff_odd)
  with and_exp_eq_0_iff_not_bit [of n 15] have "n AND 2 ^ 15 = 0" by blast
  then show ?thesis by simp
qed

lemma or_8000_and_7FFF: "0 \<le> n \<Longrightarrow> n \<le> 0x7FFF \<Longrightarrow> ((n::int) OR 0x8000) AND 0x7FFF = n"
proof -
  assume a: "0 \<le> n" "n \<le> 0x7FFF"
  have "(n OR 0x8000) AND 0x7FFF = (n AND 0x7FFF) OR (0x8000 AND 0x7FFF)"
    by (rule bit.conj_disj_distrib2)
  also have "\<dots> = n" using a by (simp add: and_7FFF_id)
  finally show ?thesis .
qed

lemma or_8000_and_8000: "0 \<le> n \<Longrightarrow> n \<le> 0x7FFF \<Longrightarrow> ((n::int) OR 0x8000) AND 0x8000 = 0x8000"
proof -
  assume a: "0 \<le> n" "n \<le> 0x7FFF"
  have "(n OR 0x8000) AND 0x8000 = (n AND 0x8000) OR (0x8000 AND 0x8000)"
    by (rule bit.conj_disj_distrib2)
  also have "\<dots> = 0x8000" using a by (simp add: and_8000_zero)
  finally show ?thesis .
qed

lemma py_round_nonneg: "0 \<le> x \<Longrightarrow> 0 \<le> py_round x"
  by (auto simp: py_round_def Let_def)

lemma py_round_of_int: "py_round (of_int n) = n"
  by (simp add: py_round_def)

lemma py_round_le: "x \<le> of_int n \<Longrightarrow> py_round x \<le> n"
  unfolding py_round_def Let_def by (auto simp: floor_le_iff)

lemma py_round_near: "\<bar>of_int (py_round x) - x\<bar> \<le> 1 / 2"
  unfolding py_round_def Let_def by (auto simp: abs_le_iff)

lemma steps_pos: "0 < steps_per_deg"
  by (simp add: steps_per_deg_def)

lemma degps_to_raw_eq:
  assumes "py_round (\<bar>d\<bar> * steps_per_deg) = m" "m \<le> 0x7FFF"
  shows "degps_to_raw d = (if d < 0 then m OR 0x8000 else m AND 0x7FFF)"
  unfolding degps_to_raw_def Let_def assms(1) using assms(2) by simp

lemma degps_to_raw_bits:
  assumes "py_round (\<bar>d\<bar> * steps_per_deg) = m" "m \<le> 0x7FFF"
  shows "degps_to_raw d AND 0x7FFF = m"
    and "(degps_to_raw d AND 0x8000 \<noteq> 0) = (d < 0)"
proof -
  have "0 \<le> \<bar>d\<bar> * steps_per_deg" using steps_pos by simp
  then have m0: "0 \<le> m" using assms(1) py_round_nonneg by blast
  show "degps_to_raw d AND 0x7FFF = m"
    using assms(2) m0
    by (simp add: degps_to_raw_eq [OF assms] or_8000_and_7FFF and_7FFF_id)
  show "(degps_to_raw d AND 0x8000 \<noteq> 0) = (d < 0)"
    using assms(2) m0
    by (simp add: degps_to_raw_eq [OF assms] or_8000_and_8000 and_7FFF_id and_8000_zero)
qed

lemma raw_to_degps_degps_to_raw:
  assumes "py_round (\<bar>d\<bar> * steps_per_deg) = m" "m \<le> 0x7FFF"
  shows "raw_to_degps (degps_to_raw d) =
           (if d < 0 then - (of_int m / steps_per_deg) else of_int m / steps_per_deg)"
  using degps_to_raw_bits [OF assms]
  by (simp add: raw_to_degps_def Let_def)

lemma roundtrip_representable:
  assumes "0 \<le> m" "m \<le> 0x7FFF"
  shows "raw_to_degps (degps_to_raw (of_int m / steps_per_deg)) = of_int m / steps_per_deg"
    and "raw_to_degps (degps_to_raw (- (of_int m / steps_per_deg))) = - (of_int m / steps_per_deg)"
proof -
  let ?d = "of_int m / steps_per_deg"
  have d0: "0 \<le> ?d" using assms(1) steps_pos by simp
  have a: "\<bar>?d\<bar> * steps_per_deg = of_int m" using assms(1) steps_pos by simp
  have r: "py_round (\<bar>?d\<bar> * steps_per_deg) = m"
    unfolding a by (rule py_round_of_int)
  have r': "py_round (\<bar>- ?d\<bar> * steps_per_deg) = m"
    using r by simp
  show "raw_to_degps (degps_to_raw ?d) = ?d"
    using raw_to_degps_degps_to_raw [OF r assms(2)] d0 by simp
  show "raw_to_degps (degps_to_raw (- ?d)) = - ?d"
    using raw_to_degps_degps_to_raw [OF r' assms(2)] d0 by (cases "?d = 0") auto
qed

text \<open>
  Claim C5. Let \<open>m\<close> be a magnitude from 0 to 0x7FFF. Every speed that
  \<^verbatim>\<open>degps_to_raw\<close> rounds to \<open>m\<close> ticks is encoded with \<open>m\<close> in the low 15 bits and
  with bit 15 set exactly when the speed is negative, and \<^verbatim>\<open>raw_to_degps\<close> decodes
  the raw value to the speed of \<open>m\<close> ticks with that sign. So on the speeds that are a
  whole number \<open>m\<close> of ticks, of either sign, \<^verbatim>\<open>raw_to_degps\<close> after
  \<^verbatim>\<open>degps_to_raw\<close> is the identity.
\<close>

theorem raw_encode_decode:
  assumes "0 \<le> m" and "m \<le> 0x7FFF"
  shows "(\<forall>d. py_round (\<bar>d\<bar> * steps_per_deg) = m \<longrightarrow>
            degps_to_raw d AND 0x7FFF = m \<and>
            (degps_to_raw d AND 0x8000 \<noteq> 0) = (d < 0) \<and>
            raw_to_degps (degps_to_raw d) =
              (if d < 0 then - (of_int m / steps_per_deg) else of_int m / steps_per_deg)) \<and>
         raw_to_degps (degps_to_raw (of_int m / steps_per_deg)) = of_int m / steps_per_deg \<and>
         raw_to_degps (degps_to_raw (- (of_int m / steps_per_deg))) = - (of_int m / steps_per_deg)"
  using degps_to_raw_bits [OF _ assms(2)] raw_to_degps_degps_to_raw [OF _ assms(2)]
    roundtrip_representable [OF assms]
  by blast

theorem raw_encode_decode_witness:
  "(0::int) \<le> 1000 \<and> (1000::int) \<le> 0x7FFF \<and>
   py_round (\<bar>- (5625 / 64)\<bar> * steps_per_deg) = 1000 \<and>
   degps_to_raw (- (5625 / 64)) AND 0x7FFF = 1000 \<and>
   (degps_to_raw (- (5625 / 64)) AND 0x8000 \<noteq> 0) \<and>
   raw_to_degps (degps_to_raw (- (5625 / 64))) = - (5625 / 64)"
proof -
  have r: "py_round (\<bar>- (5625 / 64)\<bar> * steps_per_deg) = 1000"
    by (simp add: py_round_def steps_per_deg_def)
  have s: "of_int 1000 / steps_per_deg = 5625 / 64"
    by (simp add: steps_per_deg_def)
  show ?thesis
    using raw_encode_decode [of 1000] r s by simp
qed

text \<open>
  The raw value 0x8000 is what a negative speed that rounds to 0 ticks is encoded as. It
  decodes to the speed 0, the real numbers having one zero only.
\<close>

lemma negative_zero:
  "degps_to_raw (- (1 / 100)) = 0x8000 \<and> raw_to_degps 0x8000 = 0"
  by (simp add: degps_to_raw_def raw_to_degps_def py_round_def steps_per_deg_def)

section \<open>The kinematic matrix\<close>

lemma cos150: "cos (5 * pi / 6) = - (sqrt 3 / 2)"
proof -
  have "5 * pi / 6 = pi - pi / 6" by simp
  then show ?thesis by (simp only: cos_pi_minus cos_30)
qed

lemma sin150: "sin (5 * pi / 6) = 1 / 2"
proof -
  have "5 * pi / 6 = pi - pi / 6" by simp
  then show ?thesis by (simp only: sin_pi_minus sin_30)
qed

lemma kin_matrix_eq:
  "kin_matrix b = [[- (sqrt 3 / 2), 1 / 2, b], [sqrt 3 / 2, 1 / 2, b], [0, - 1, b]]"
  by (simp add: kin_matrix_def angles_def radians_def cos150 sin150 cos_30 sin_30)

lemma inv3_kin_matrix:
  "b \<noteq> 0 \<Longrightarrow> inv3 (kin_matrix b) =
     Inr [[- (1 / sqrt 3), 1 / sqrt 3, 0], [1 / 3, 1 / 3, - (2 / 3)],
          [1 / (3 * b), 1 / (3 * b), 1 / (3 * b)]]"
  by (simp add: kin_matrix_eq Let_def)

lemma inv3_kin_matrix_singular: "inv3 (kin_matrix 0) = Inl LinAlgError"
  by (simp add: kin_matrix_eq Let_def)

lemma raw_to_degps_0: "raw_to_degps 0 = 0"
  by (simp add: raw_to_degps_def)

lemma wheel_raw_to_body_zero:
  "raw_list P w = Inr [0, 0, 0] \<Longrightarrow>
   wheel_raw_to_body P w wr br = (if br = 0 then Inl LinAlgError else Inr (0, 0, 0))"
  by (simp add: wheel_raw_to_body_def raw_to_degps_0 inv3_kin_matrix inv3_kin_matrix_singular
      dot_def Let_def)

lemma raw_list_empty: "raw_list P (JDict []) = Inr [0, 0, 0]"
  by (simp add: raw_list_def)

lemma py_get_append_missing:
  "map_of kvs k = None \<Longrightarrow>
   py_get (JDict (kvs @ [(k, JInt 0)])) k' (JInt 0) = py_get (JDict kvs) k' (JInt 0)"
  by (simp add: map_add_def split: option.splits)

lemma raw_list_missing_key:
  "map_of kvs k = None \<Longrightarrow> raw_list P (JDict (kvs @ [(k, JInt 0)])) = raw_list P (JDict kvs)"
  unfolding raw_list_def by (simp only: py_get_append_missing)

lemma fresh_connect:
  "is_connected (snd (connect (init ip cmd_port obs_port mrt cams)))"
  "cached (snd (connect (init ip cmd_port obs_port mrt cams))) =
     (Map.empty, JDict [], Tensor [6] [0, 0, 0, 0, 0, 0])"
  "cameras (snd (connect (init ip cmd_port obs_port mrt cams))) = cams"
  by (simp_all add: connect_def init_def cached_def torch_zeros6_def numeral_eq_Suc)

lemma get_observation_eq:
  assumes "is_connected self"
    and "get_data L self ready pending = ((frames, speed, Tensor [n] arm), self')"
    and "wheel_raw_to_body L speed (5 / 100) (125 / 1000) = Inr (x, y, theta)"
  shows "get_observation L self ready pending =
     (Inr (camera_loop frames (cameras self')
             [OBS_STATE \<mapsto> Numbers (Tensor [n + 3] (arm @ [x * 1000, y * 1000, theta]))]),
      self')"
  unfolding get_observation_def assms(2) using assms(1,3) by (simp add: Let_def)

lemma get_observation_cached:
  assumes "is_connected self" and "cached self = (frames, speed, Tensor [n] arm)"
    and "wheel_raw_to_body L speed (5 / 100) (125 / 1000) = Inr (x, y, theta)"
  shows "get_observation L self False pending =
     (Inr (camera_loop frames (cameras self)
             [OBS_STATE \<mapsto> Numbers (Tensor [n + 3] (arm @ [x * 1000, y * 1000, theta]))]),
      self)"
proof -
  have g: "get_data L self False pending = ((frames, speed, Tensor [n] arm), self)"
    by (simp add: get_data_def assms(2))
  show ?thesis by (rule get_observation_eq [OF assms(1) g assms(3)])
qed

text \<open>
  Claim C10. For a dict, a wheel key that is missing reads as the raw value 0: the result
  of \<^verbatim>\<open>wheel_raw_to_body\<close> is the one for the dict with the key added with value 0,
  and for the empty dict it is the body velocity (0, 0, 0) (for a base radius other than
  0, as the default is). On a daemon that has connected and never received an
  observation, \<^verbatim>\<open>get_observation\<close> with no message returns an observation: the
  tensor of the arm state of six zeros followed by the body velocity (0, 0, 0), and the
  image entries.
\<close>

theorem missing_wheel_key_reads_zero:
  "(map_of kvs k = None \<longrightarrow>
      wheel_raw_to_body P (JDict (kvs @ [(k, JInt 0)])) wr br =
      wheel_raw_to_body P (JDict kvs) wr br) \<and>
   wheel_raw_to_body P (JDict []) wr br = (if br = 0 then Inl LinAlgError else Inr (0, 0, 0)) \<and>
   get_observation L (snd (connect (init ip cmd_port obs_port mrt cams))) False pending =
     (Inr (camera_loop Map.empty cams
             [OBS_STATE \<mapsto> Numbers (Tensor [9] [0, 0, 0, 0, 0, 0, 0, 0, 0])]),
      snd (connect (init ip cmd_port obs_port mrt cams)))"
proof -
  let ?self = "snd (connect (init ip cmd_port obs_port mrt cams))"
  have 1: "map_of kvs k = None \<longrightarrow>
      wheel_raw_to_body P (JDict (kvs @ [(k, JInt 0)])) wr br =
      wheel_raw_to_body P (JDict kvs) wr br"
    by (simp add: wheel_raw_to_body_def raw_list_missing_key)
  have 2: "wheel_raw_to_body P (JDict []) wr br = (if br = 0 then Inl LinAlgError else Inr (0, 0, 0))"
    by (rule wheel_raw_to_body_zero [OF raw_list_empty])
  have w: "wheel_raw_to_body L (JDict []) (5 / 100) (125 / 1000) = Inr (0, 0, 0)"
    by (simp add: wheel_raw_to_body_zero [OF raw_list_empty])
  have 3: "get_observation L ?self False pending =
     (Inr (camera_loop Map.empty cams
             [OBS_STATE \<mapsto> Numbers (Tensor [9] [0, 0, 0, 0, 0, 0, 0, 0, 0])]), ?self)"
    using get_observation_cached [OF fresh_connect(1) fresh_connect(2) w,
        of ip cmd_port obs_port mrt cams pending]
    by (simp add: fresh_connect(3))
  show ?thesis using 1 2 3 by blast
qed

theorem missing_wheel_key_reads_zero_witness:
  "map_of [(''left_wheel'', JInt 100)] ''back_wheel'' = None \<and>
   wheel_raw_to_body lib0
     (JDict ([(''left_wheel'', JInt 100)] @ [(''back_wheel'', JInt 0)])) (5 / 100) (125 / 1000) =
   wheel_raw_to_body lib0 (JDict [(''left_wheel'', JInt 100)]) (5 / 100) (125 / 1000)"
  using missing_wheel_key_reads_zero [of "[(''left_wheel'', JInt 100)]" "''back_wheel''" lib0
      "5 / 100" "125 / 1000" lib0 "''192.168.0.2''" 5555 5556 None "[]" "[]"]
  by simp

section \<open>Saturation\<close>

lemma py_max_Max: "xs \<noteq> [] \<Longrightarrow> py_max xs = Max (set xs)"
  by (cases xs) (simp_all add: Max.set_eq_fold [symmetric])

lemma py_max_ge: "x \<in> set xs \<Longrightarrow> x \<le> py_max xs"
proof -
  assume a: "x \<in> set xs"
  then have "xs \<noteq> []" by auto
  then show ?thesis using a by (simp add: py_max_Max)
qed

lemma degps_to_raw_magnitude:
  "degps_to_raw d AND 0x7FFF = min 0x7FFF (py_round (\<bar>d\<bar> * steps_per_deg))"
proof -
  define m where "m = py_round (\<bar>d\<bar> * steps_per_deg)"
  have "0 \<le> \<bar>d\<bar> * steps_per_deg" using steps_pos by simp
  then have m0: "0 \<le> m" unfolding m_def by (rule py_round_nonneg)
  have eq: "degps_to_raw d =
      (if d < 0 then (if m > 0x7FFF then 0x7FFF else m) OR 0x8000
       else (if m > 0x7FFF then 0x7FFF else m) AND 0x7FFF)"
    unfolding degps_to_raw_def Let_def m_def by (rule refl)
  have "degps_to_raw d AND 0x7FFF = min 0x7FFF m"
  proof (cases "m > 0x7FFF")
    case True
    then show ?thesis unfolding eq by simp
  next
    case False
    then show ?thesis unfolding eq using m0
      by (simp add: or_8000_and_7FFF and_7FFF_id)
  qed
  then show ?thesis unfolding m_def .
qed

lemma raw_floats_nth: "i < length degs \<Longrightarrow> raw_floats degs ! i = \<bar>degs ! i\<bar> * steps_per_deg"
  by (simp add: raw_floats_def)

lemma raw_floats_scaled:
  "0 \<le> k \<Longrightarrow> raw_floats (map (\<lambda>d. d * k) degs) = map (\<lambda>r. r * k) (raw_floats degs)"
  by (simp add: raw_floats_def abs_mult)

lemma scaled_degps_saturated:
  assumes "0 \<le> max_raw" and "py_max (raw_floats degs) > of_int max_raw"
  shows "scaled_degps degs max_raw =
           Inr (map (\<lambda>d. d * (of_int max_raw / py_max (raw_floats degs))) degs)"
  using assms by (simp add: scaled_degps_def Let_def)

lemma length_wheel_degps: "length (wheel_degps x y th wr br) = 3"
  by (simp add: wheel_degps_def kin_matrix_eq dot_def Let_def)

text \<open>
  Claim C6. Let the largest naive raw magnitude exceed \<open>max_raw\<close>, for a wheel radius
  other than 0 and \<open>max_raw\<close> not negative. Then the block under \<^verbatim>\<open># Scaling\<close>
  multiplies the three wheel speeds by one factor \<open>scale\<close> with \<open>0 \<le> scale < 1\<close>, so
  that for any two wheels the raw magnitudes after the scaling are in the same ratio as
  before it (written without division); after the scaling no raw magnitude exceeds
  \<open>max_raw\<close>, and neither does the magnitude (the low 15 bits) of any raw value that
  \<^verbatim>\<open>body_to_wheel_raw\<close> returns, which is the rounding of the scaled one.
\<close>

theorem saturation_scaling:
  assumes "wheel_radius \<noteq> 0" and "0 \<le> max_raw"
    and "degs = wheel_degps x_cmd y_cmd theta_cmd wheel_radius base_radius"
    and "py_max (raw_floats degs) > of_int max_raw"
    and "scale = of_int max_raw / py_max (raw_floats degs)"
    and "scaled = map (\<lambda>d. d * scale) degs"
  shows "0 \<le> scale \<and> scale < 1 \<and>
         scaled_degps degs max_raw = Inr scaled \<and>
         body_to_wheel_raw x_cmd y_cmd theta_cmd wheel_radius base_radius max_raw =
           Inr (JDict [(''left_wheel'', JInt (degps_to_raw (scaled ! 0))),
                       (''back_wheel'', JInt (degps_to_raw (scaled ! 1))),
                       (''right_wheel'', JInt (degps_to_raw (scaled ! 2)))]) \<and>
         (\<forall>i < 3. \<forall>j < 3.
            raw_floats scaled ! i * raw_floats degs ! j =
            raw_floats scaled ! j * raw_floats degs ! i) \<and>
         (\<forall>i < 3. raw_floats scaled ! i \<le> of_int max_raw \<and>
                  degps_to_raw (scaled ! i) AND 0x7FFF \<le> max_raw)"
proof -
  let ?mx = "py_max (raw_floats degs)"
  have len: "length degs = 3" using assms(3) by (simp add: length_wheel_degps)
  have mx: "0 < ?mx" using assms(2,4) by (smt (verit) of_int_0_le_iff)
  have s0: "0 \<le> scale" using assms(2,5) mx by simp
  have s1: "scale < 1" using assms(4,5) mx by simp
  have sd: "scaled_degps degs max_raw = Inr scaled"
    using scaled_degps_saturated [OF assms(2) assms(4)] assms(5,6) by simp
  have b: "body_to_wheel_raw x_cmd y_cmd theta_cmd wheel_radius base_radius max_raw =
           Inr (JDict [(''left_wheel'', JInt (degps_to_raw (scaled ! 0))),
                       (''back_wheel'', JInt (degps_to_raw (scaled ! 1))),
                       (''right_wheel'', JInt (degps_to_raw (scaled ! 2)))])"
    using assms(1) sd len assms(6)
    by (simp add: body_to_wheel_raw_def assms(3) [symmetric] Let_def)
  have rs: "raw_floats scaled = map (\<lambda>r. r * scale) (raw_floats degs)"
    using raw_floats_scaled [OF s0] assms(6) by simp
  have lrf: "length (raw_floats degs) = 3" using len by (simp add: raw_floats_def)
  have nth: "raw_floats scaled ! i = raw_floats degs ! i * scale" if "i < 3" for i
    using that rs lrf by simp
  have ratio: "\<forall>i < 3. \<forall>j < 3.
            raw_floats scaled ! i * raw_floats degs ! j =
            raw_floats scaled ! j * raw_floats degs ! i"
    by (simp add: nth)
  have bound: "raw_floats scaled ! i \<le> of_int max_raw \<and>
               degps_to_raw (scaled ! i) AND 0x7FFF \<le> max_raw" if i: "i < 3" for i
  proof -
    have "raw_floats degs ! i \<in> set (raw_floats degs)" using i lrf by simp
    then have le: "raw_floats degs ! i \<le> ?mx" by (rule py_max_ge)
    have "raw_floats degs ! i * scale \<le> ?mx * scale"
      using le s0 by (rule mult_right_mono)
    also have "?mx * scale = of_int max_raw" using assms(5) mx by simp
    finally have r: "raw_floats scaled ! i \<le> of_int max_raw" using nth [OF i] by simp
    have ls: "length scaled = 3" using len assms(6) by simp
    have "raw_floats scaled ! i = \<bar>scaled ! i\<bar> * steps_per_deg"
      using i ls by (simp add: raw_floats_nth)
    with r have "py_round (\<bar>scaled ! i\<bar> * steps_per_deg) \<le> max_raw"
      by (simp add: py_round_le)
    then have "degps_to_raw (scaled ! i) AND 0x7FFF \<le> max_raw"
      by (simp add: degps_to_raw_magnitude)
    with r show ?thesis by simp
  qed
  show ?thesis using s0 s1 sd b ratio bound by blast
qed


lemma wheel_degps_rotation:
  "wheel_degps 0 0 1000 (5 / 100) (125 / 1000) = [2500, 2500, 2500]"
  by (simp add: wheel_degps_def kin_matrix_eq dot_def Let_def)

theorem saturation_scaling_witness:
  "body_to_wheel_raw 0 0 1000 (5 / 100) (125 / 1000) 3000 =
     Inr (JDict [(''left_wheel'', JInt 3000), (''back_wheel'', JInt 3000),
                 (''right_wheel'', JInt 3000)]) \<and>
   scaled_degps [2500, 2500, 2500] 3000 = Inr [16875 / 64, 16875 / 64, 16875 / 64] \<and>
   degps_to_raw (16875 / 64) AND 0x7FFF \<le> 3000"
proof -
  have rf: "raw_floats [2500, 2500, 2500] = [256000 / 9, 256000 / 9, 256000 / 9]"
    by (simp add: raw_floats_def steps_per_deg_def)
  have mx: "py_max (raw_floats [2500, 2500, 2500]) = 256000 / 9"
    by (simp add: rf)
  have raw: "degps_to_raw (16875 / 64) = 3000"
    by (simp add: degps_to_raw_def py_round_def steps_per_deg_def)
  have h1: "(5 / 100 :: real) \<noteq> 0" by simp
  have h2: "(0::int) \<le> 3000" by simp
  have h3: "[2500, 2500, 2500] = wheel_degps 0 0 1000 (5 / 100) (125 / 1000)"
    by (rule wheel_degps_rotation [symmetric])
  have h4: "py_max (raw_floats [2500, 2500, 2500]) > of_int 3000"
    by (simp add: mx)
  have h5: "(27 / 256 :: real) = of_int 3000 / py_max (raw_floats [2500, 2500, 2500])"
    by (simp add: mx)
  have h6: "[16875 / 64, 16875 / 64, 16875 / 64] = map (\<lambda>d. d * (27 / 256)) [2500, 2500, 2500 :: real]"
    by simp
  from saturation_scaling [OF h1 h2 h3 h4 h5 h6]
  show ?thesis by (simp add: raw)
qed

section \<open>Kinematics round trip\<close>

lemma decode_error:
  assumes "\<bar>d\<bar> * steps_per_deg \<le> 0x7FFF"
  shows "\<bar>raw_to_degps (degps_to_raw d) - d\<bar> \<le> (1 / 2) / steps_per_deg"
proof -
  define m where "m = py_round (\<bar>d\<bar> * steps_per_deg)"
  have le: "m \<le> 0x7FFF" unfolding m_def using assms py_round_le [of _ "0x7FFF"] by simp
  have near: "\<bar>of_int m - \<bar>d\<bar> * steps_per_deg\<bar> \<le> 1 / 2"
    unfolding m_def by (rule py_round_near)
  have eq: "raw_to_degps (degps_to_raw d) =
      (if d < 0 then - (of_int m / steps_per_deg) else of_int m / steps_per_deg)"
    by (rule raw_to_degps_degps_to_raw [OF m_def [symmetric] le])
  have "\<bar>raw_to_degps (degps_to_raw d) - d\<bar> = \<bar>of_int m - \<bar>d\<bar> * steps_per_deg\<bar> / steps_per_deg"
  proof (cases "d < 0")
    case True
    then have "raw_to_degps (degps_to_raw d) - d = - ((of_int m - \<bar>d\<bar> * steps_per_deg) / steps_per_deg)"
      using eq steps_pos by (simp add: field_simps)
    then show ?thesis using steps_pos by (simp add: abs_minus_commute)
  next
    case False
    then have "raw_to_degps (degps_to_raw d) - d = (of_int m - \<bar>d\<bar> * steps_per_deg) / steps_per_deg"
      using eq steps_pos by (simp add: field_simps)
    then show ?thesis using steps_pos by simp
  qed
  also have "\<dots> \<le> (1 / 2) / steps_per_deg"
    using near steps_pos by (intro divide_right_mono) simp_all
  finally show ?thesis .
qed

lemma wheel_degps_explicit:
  "wheel_degps x y th wr br =
     [(- (sqrt 3 / 2) * x + 1 / 2 * y + br * (th * (pi / 180))) / wr * (180 / pi),
      (sqrt 3 / 2 * x + 1 / 2 * y + br * (th * (pi / 180))) / wr * (180 / pi),
      (- y + br * (th * (pi / 180))) / wr * (180 / pi)]"
  by (simp add: wheel_degps_def kin_matrix_eq dot_def Let_def)

lemma wheel_raw_to_body_explicit:
  assumes "br \<noteq> 0" and "raw_list P w = Inr [r0, r1, r2]"
    and "l0 = raw_to_degps r0 * (pi / 180) * wr"
    and "l1 = raw_to_degps r1 * (pi / 180) * wr"
    and "l2 = raw_to_degps r2 * (pi / 180) * wr"
  shows "wheel_raw_to_body P w wr br =
     Inr ((l1 - l0) / sqrt 3, (l0 + l1 - 2 * l2) / 3, (l0 + l1 + l2) / (3 * br) * (180 / pi))"
  using assms(1)
  by (simp add: wheel_raw_to_body_def assms(2) inv3_kin_matrix dot_def Let_def assms(3,4,5)
      field_simps)


lemma scaled_degps_unsaturated:
  "py_max (raw_floats degs) \<le> of_int max_raw \<Longrightarrow> scaled_degps degs max_raw = Inr degs"
  by (simp add: scaled_degps_def Let_def)

lemma raw_list_ints:
  "raw_list P (JDict [(''left_wheel'', JInt r0), (''back_wheel'', JInt r1),
                      (''right_wheel'', JInt r2)]) = Inr [r0, r1, r2]"
  by (simp add: raw_list_def)

text \<open>
  Claim C4. Take a wheel radius above 0, a base radius other than 0 and \<open>max_raw\<close> of at
  most 0x7FFF, and a command whose largest naive raw magnitude does not exceed
  \<open>max_raw\<close>, so that nothing is scaled or clamped. Then \<^verbatim>\<open>body_to_wheel_raw\<close>
  returns the wheel values and \<^verbatim>\<open>wheel_raw_to_body\<close> maps them to a body velocity
  that differs from the command by the quantisation only: with \<open>q\<close> half a tick in
  deg/s, each wheel speed is off by at most \<open>q\<close>, hence \<open>x\<close> by at most 2 / sqrt 3, \<open>y\<close>
  by at most 4 / 3 times \<open>q\<close> in m/s at the wheel rim, and \<open>theta\<close> by at most \<open>q\<close> times
  the wheel radius over the base radius.
\<close>

theorem kinematics_round_trip:
  assumes "0 < wheel_radius" and "base_radius \<noteq> 0" and "max_raw \<le> 0x7FFF"
    and "py_max (raw_floats (wheel_degps x y theta wheel_radius base_radius)) \<le> of_int max_raw"
    and "q = (1 / 2) / steps_per_deg"
  shows "\<exists>w x' y' theta'.
           body_to_wheel_raw x y theta wheel_radius base_radius max_raw = Inr w \<and>
           wheel_raw_to_body P w wheel_radius base_radius = Inr (x', y', theta') \<and>
           \<bar>x' - x\<bar> \<le> 2 / sqrt 3 * (q * (pi / 180) * wheel_radius) \<and>
           \<bar>y' - y\<bar> \<le> 4 / 3 * (q * (pi / 180) * wheel_radius) \<and>
           \<bar>theta' - theta\<bar> \<le> q * wheel_radius / \<bar>base_radius\<bar>"
proof -
  define wr where "wr = wheel_radius"
  define br where "br = base_radius"
  define A0 where "A0 = - (sqrt 3 / 2) * x + 1 / 2 * y + br * (theta * (pi / 180))"
  define A1 where "A1 = sqrt 3 / 2 * x + 1 / 2 * y + br * (theta * (pi / 180))"
  define A2 where "A2 = - y + br * (theta * (pi / 180))"
  define d0 where "d0 = A0 / wr * (180 / pi)"
  define d1 where "d1 = A1 / wr * (180 / pi)"
  define d2 where "d2 = A2 / wr * (180 / pi)"
  define c where "c = pi / 180 * wr"
  have wr0: "0 < wr" using assms(1) wr_def by simp
  have br0: "br \<noteq> 0" using assms(2) br_def by simp
  have c0: "0 < c" using wr0 by (simp add: c_def)
  have q0: "0 \<le> q" using assms(5) steps_pos by simp
  have degs: "wheel_degps x y theta wheel_radius base_radius = [d0, d1, d2]"
    by (simp add: wheel_degps_explicit d0_def d1_def d2_def A0_def A1_def A2_def wr_def br_def)
  have sat: "py_max (raw_floats [d0, d1, d2]) \<le> of_int max_raw"
    using assms(4) degs by simp
  have in_range: "\<bar>d\<bar> * steps_per_deg \<le> 0x7FFF" if "d \<in> set [d0, d1, d2]" for d
  proof -
    have "\<bar>d\<bar> * steps_per_deg \<in> set (raw_floats [d0, d1, d2])"
      using that by (auto simp: raw_floats_def)
    then have "\<bar>d\<bar> * steps_per_deg \<le> py_max (raw_floats [d0, d1, d2])" by (rule py_max_ge)
    also have "\<dots> \<le> of_int max_raw" by (rule sat)
    also have "\<dots> \<le> 0x7FFF" using assms(3) by simp
    finally show ?thesis .
  qed
  define e0 where "e0 = raw_to_degps (degps_to_raw d0) - d0"
  define e1 where "e1 = raw_to_degps (degps_to_raw d1) - d1"
  define e2 where "e2 = raw_to_degps (degps_to_raw d2) - d2"
  have e0: "\<bar>e0\<bar> \<le> q" unfolding e0_def assms(5) by (rule decode_error) (simp add: in_range)
  have e1: "\<bar>e1\<bar> \<le> q" unfolding e1_def assms(5) by (rule decode_error) (simp add: in_range)
  have e2: "\<bar>e2\<bar> \<le> q" unfolding e2_def assms(5) by (rule decode_error) (simp add: in_range)
  define l0 where "l0 = raw_to_degps (degps_to_raw d0) * (pi / 180) * wr"
  define l1 where "l1 = raw_to_degps (degps_to_raw d1) * (pi / 180) * wr"
  define l2 where "l2 = raw_to_degps (degps_to_raw d2) * (pi / 180) * wr"
  have dc0: "d0 * c = A0" using wr0 by (simp add: d0_def c_def)
  have dc1: "d1 * c = A1" using wr0 by (simp add: d1_def c_def)
  have dc2: "d2 * c = A2" using wr0 by (simp add: d2_def c_def)
  have l0: "l0 = A0 + e0 * c"
  proof -
    have "l0 = (d0 + e0) * c" by (simp add: l0_def e0_def c_def)
    also have "\<dots> = d0 * c + e0 * c" by (simp add: algebra_simps)
    finally show ?thesis by (simp add: dc0)
  qed
  have l1: "l1 = A1 + e1 * c"
  proof -
    have "l1 = (d1 + e1) * c" by (simp add: l1_def e1_def c_def)
    also have "\<dots> = d1 * c + e1 * c" by (simp add: algebra_simps)
    finally show ?thesis by (simp add: dc1)
  qed
  have l2: "l2 = A2 + e2 * c"
  proof -
    have "l2 = (d2 + e2) * c" by (simp add: l2_def e2_def c_def)
    also have "\<dots> = d2 * c + e2 * c" by (simp add: algebra_simps)
    finally show ?thesis by (simp add: dc2)
  qed
  let ?w = "JDict [(''left_wheel'', JInt (degps_to_raw d0)), (''back_wheel'', JInt (degps_to_raw d1)),
                   (''right_wheel'', JInt (degps_to_raw d2))]"
  let ?x' = "(l1 - l0) / sqrt 3"
  let ?y' = "(l0 + l1 - 2 * l2) / 3"
  let ?t' = "(l0 + l1 + l2) / (3 * br) * (180 / pi)"
  have fw: "body_to_wheel_raw x y theta wheel_radius base_radius max_raw = Inr ?w"
    using assms(1) scaled_degps_unsaturated [OF sat]
    by (simp add: body_to_wheel_raw_def degs Let_def)
  have bw: "wheel_raw_to_body P ?w wheel_radius base_radius = Inr (?x', ?y', ?t')"
    using wheel_raw_to_body_explicit [OF br0 raw_list_ints l0_def l1_def l2_def]
    by (simp add: wr_def br_def)
  have xe: "?x' - x = (e1 - e0) * c / sqrt 3"
  proof -
    have "l1 - l0 = sqrt 3 * x + (e1 - e0) * c"
      by (simp add: l0 l1 A0_def A1_def algebra_simps)
    then show ?thesis by (simp add: field_simps)
  qed
  have ye: "?y' - y = (e0 + e1 - 2 * e2) * c / 3"
  proof -
    have "l0 + l1 - 2 * l2 = 3 * y + (e0 + e1 - 2 * e2) * c"
      by (simp add: l0 l1 l2 A0_def A1_def A2_def algebra_simps)
    then show ?thesis by (simp add: add_divide_distrib)
  qed
  have te: "?t' - theta = (e0 + e1 + e2) * wr / (3 * br)"
  proof -
    have "l0 + l1 + l2 = 3 * br * (theta * (pi / 180)) + (e0 + e1 + e2) * c"
      by (simp add: l0 l1 l2 A0_def A1_def A2_def algebra_simps)
    then have "?t' = (3 * br * (theta * (pi / 180)) + (e0 + e1 + e2) * c) / (3 * br) * (180 / pi)"
      by simp
    also have "\<dots> = theta + (e0 + e1 + e2) * wr / (3 * br)"
      using br0 by (simp add: c_def field_simps)
    finally show ?thesis by simp
  qed
  have xb: "\<bar>?x' - x\<bar> \<le> 2 / sqrt 3 * (q * (pi / 180) * wheel_radius)"
  proof -
    have "\<bar>e1 - e0\<bar> \<le> 2 * q" using e0 e1 by linarith
    then have m: "\<bar>e1 - e0\<bar> * c \<le> 2 * q * c" using c0 by (simp add: mult_right_mono)
    have "\<bar>?x' - x\<bar> = \<bar>e1 - e0\<bar> * c / sqrt 3"
      using c0 by (simp add: xe abs_mult)
    also have "\<dots> \<le> 2 * q * c / sqrt 3"
      using m by (intro divide_right_mono) simp_all
    also have "\<dots> = 2 / sqrt 3 * (q * (pi / 180) * wheel_radius)"
      by (simp add: c_def wr_def)
    finally show ?thesis .
  qed
  have yb: "\<bar>?y' - y\<bar> \<le> 4 / 3 * (q * (pi / 180) * wheel_radius)"
  proof -
    have "\<bar>e0 + e1 - 2 * e2\<bar> \<le> 4 * q" using e0 e1 e2 by linarith
    then have m: "\<bar>e0 + e1 - 2 * e2\<bar> * c \<le> 4 * q * c" using c0 by (simp add: mult_right_mono)
    have "\<bar>?y' - y\<bar> = \<bar>e0 + e1 - 2 * e2\<bar> * c / 3"
      using c0 by (simp add: ye abs_mult)
    also have "\<dots> \<le> 4 * q * c / 3"
      using m by (intro divide_right_mono) simp_all
    also have "\<dots> = 4 / 3 * (q * (pi / 180) * wheel_radius)"
      by (simp add: c_def wr_def)
    finally show ?thesis .
  qed
  have tb: "\<bar>?t' - theta\<bar> \<le> q * wheel_radius / \<bar>base_radius\<bar>"
  proof -
    have "\<bar>e0 + e1 + e2\<bar> \<le> 3 * q" using e0 e1 e2 by linarith
    then have m: "\<bar>e0 + e1 + e2\<bar> * wr \<le> 3 * q * wr" using wr0 by (simp add: mult_right_mono)
    have "\<bar>?t' - theta\<bar> = \<bar>(e0 + e1 + e2) * wr / (3 * br)\<bar>"
      by (simp only: te)
    also have "\<dots> = \<bar>e0 + e1 + e2\<bar> * wr / (3 * \<bar>br\<bar>)"
      using wr0 by (simp add: abs_mult)
    also have "\<dots> \<le> 3 * q * wr / (3 * \<bar>br\<bar>)"
      using m by (intro divide_right_mono) simp_all
    also have "\<dots> = q * wheel_radius / \<bar>base_radius\<bar>"
      by (simp add: wr_def br_def)
    finally show ?thesis .
  qed
  show ?thesis using fw bw xb yb tb by blast
qed

lemma wheel_degps_slow_rotation:
  "wheel_degps 0 0 100 (5 / 100) (125 / 1000) = [250, 250, 250]"
  by (simp add: wheel_degps_def kin_matrix_eq dot_def Let_def)

theorem kinematics_round_trip_witness:
  "\<exists>w x' y' theta'.
     body_to_wheel_raw 0 0 100 (5 / 100) (125 / 1000) 3000 = Inr w \<and>
     wheel_raw_to_body lib0 w (5 / 100) (125 / 1000) = Inr (x', y', theta') \<and>
     \<bar>x' - 0\<bar> \<le> 2 / sqrt 3 * ((1 / 2) / steps_per_deg * (pi / 180) * (5 / 100)) \<and>
     \<bar>y' - 0\<bar> \<le> 4 / 3 * ((1 / 2) / steps_per_deg * (pi / 180) * (5 / 100)) \<and>
     \<bar>theta' - 100\<bar> \<le> (1 / 2) / steps_per_deg * (5 / 100) / \<bar>125 / 1000\<bar>"
proof -
  have h1: "(0::real) < 5 / 100" by simp
  have h2: "(125 / 1000 :: real) \<noteq> 0" by simp
  have h3: "(3000::int) \<le> 0x7FFF" by simp
  have "py_max (raw_floats [250, 250, 250]) \<le> of_int 3000"
    by (simp add: raw_floats_def steps_per_deg_def)
  then have h4: "py_max (raw_floats (wheel_degps 0 0 100 (5 / 100) (125 / 1000))) \<le> of_int 3000"
    by (simp only: wheel_degps_slow_rotation)
  from kinematics_round_trip [OF h1 h2 h3 h4 refl, of lib0] show ?thesis .
qed

section \<open>Decoding a message\<close>

lemma decode_bad_arm:
  "decode_message lib0 self msg_bad_arm = (Inl TypeError, self\<lparr>last_frames := Map.empty\<rparr>)"
  by (simp add: decode_message_def lib0_loads loads0_bad_arm json_bad_arm_def lib0_tensor_str
      Let_def)

text \<open>
  Claim C3, at a message whose arm state is a string. \<^verbatim>\<open>torch.tensor\<close> raises inside
  the \<^verbatim>\<open>try\<close> after \<^verbatim>\<open>self.last_frames = frames\<close> has run: the exception is caught,
  but the frame cache, which held a frame of each camera, is now empty, and the snapshot
  returned has the new (empty) frames with the old speed and arm state.
\<close>

theorem decode_exception_replaces_frames:
  "last_frames daemon2 ''front'' = Some 7 \<and>
   get_data lib0 daemon2 True [msg_bad_arm] =
     ((Map.empty, last_present_speed daemon2, last_remote_arm_state daemon2),
      daemon2\<lparr>last_frames := Map.empty\<rparr>)"
proof -
  have "msg_bad_arm \<noteq> []" by (simp add: msg_bad_arm_def)
  then show ?thesis
    by (simp add: get_data_def decode_bad_arm cached_def daemon2_def)
qed

lemma msg_partial_nonempty: "msg_partial \<noteq> []"
  by (simp add: msg_partial_def)

lemma raw_list_agent_keys:
  "raw_list P (JDict [(''1'', JInt 0), (''2'', JInt 0), (''3'', JInt 0)]) = Inr [0, 0, 0]"
  by (simp add: raw_list_def)

lemma convert_images_succeeds:
  "\<forall>p \<in> snd ` set imgs. truthy p \<longrightarrow> (\<exists>r. imdecode_b64 L p = Inr r) \<Longrightarrow>
   \<exists>frames. convert_images L imgs fr0 = Inr frames"
proof (induction imgs arbitrary: fr0)
  case Nil
  then show ?case by simp
next
  case (Cons cp imgs)
  obtain c p where cp: "cp = (c, p)" by (cases cp)
  from Cons.prems have rest: "\<forall>p \<in> snd ` set imgs. truthy p \<longrightarrow> (\<exists>r. imdecode_b64 L p = Inr r)"
    by simp
  show ?case
  proof (cases "truthy p")
    case False
    then show ?thesis using Cons.IH [OF rest] cp by simp
  next
    case True
    with Cons.prems cp obtain r where r: "imdecode_b64 L p = Inr r" by auto
    show ?thesis using Cons.IH [OF rest] cp True r by (cases r) simp_all
  qed
qed

lemma convert_images_other:
  "convert_images L imgs fr0 = Inr frames \<Longrightarrow> b \<notin> fst ` set imgs \<Longrightarrow> frames b = fr0 b"
proof (induction imgs arbitrary: fr0)
  case Nil
  then show ?case by simp
next
  case (Cons cp imgs)
  obtain c p where cp: "cp = (c, p)" by (cases cp)
  with Cons.prems have ne: "b \<noteq> c" and nin: "b \<notin> fst ` set imgs" by auto
  from Cons.prems(1) cp show ?case
    using Cons.IH [OF _ nin] ne
    by (auto split: if_splits sum.splits option.splits)
qed

lemma convert_images_corrupt:
  "convert_images L imgs fr0 = Inr frames \<Longrightarrow>
   \<forall>p. (b, p) \<in> set imgs \<longrightarrow> \<not> truthy p \<or> imdecode_b64 L p = Inr None \<Longrightarrow>
   frames b = fr0 b"
proof (induction imgs arbitrary: fr0)
  case Nil
  then show ?case by simp
next
  case (Cons cp imgs)
  obtain c p where cp: "cp = (c, p)" by (cases cp)
  from Cons.prems(2)
  have rest: "\<forall>p. (b, p) \<in> set imgs \<longrightarrow> \<not> truthy p \<or> imdecode_b64 L p = Inr None"
    by simp
  from Cons.prems cp show ?case
    using Cons.IH [OF _ rest]
    by (auto split: if_splits sum.splits option.splits)
qed

lemma convert_images_valid:
  "convert_images L imgs fr0 = Inr frames \<Longrightarrow> distinct (map fst imgs) \<Longrightarrow>
   (a, pa) \<in> set imgs \<Longrightarrow> truthy pa \<Longrightarrow> imdecode_b64 L pa = Inr (Some f) \<Longrightarrow>
   frames a = Some f"
proof (induction imgs arbitrary: fr0)
  case Nil
  then show ?case by simp
next
  case (Cons cp imgs)
  obtain c p where cp: "cp = (c, p)" by (cases cp)
  show ?case
  proof (cases "(a, pa) = (c, p)")
    case True
    with Cons.prems cp have "a \<notin> fst ` set imgs" by auto
    moreover from Cons.prems True cp
    have "convert_images L imgs (fr0(a \<mapsto> f)) = Inr frames" by simp
    ultimately show ?thesis using convert_images_other by fastforce
  next
    case False
    with Cons.prems cp have mem: "(a, pa) \<in> set imgs" and d: "distinct (map fst imgs)" by auto
    from Cons.prems(1) cp show ?thesis
      using Cons.IH [OF _ d mem Cons.prems(4) Cons.prems(5)]
      by (auto split: if_splits sum.splits option.splits)
  qed
qed

lemma camera_loop_other:
  "b \<notin> fst ` set cams \<Longrightarrow>
   camera_loop frames cams obs (OBS_IMAGES @ ''.'' @ b) = obs (OBS_IMAGES @ ''.'' @ b)"
  by (induction cams arbitrary: obs) (auto simp: Let_def)

lemma camera_loop_missing:
  "frames b = None \<Longrightarrow> (b, cam) \<in> set cams \<Longrightarrow> distinct (map fst cams) \<Longrightarrow>
   camera_loop frames cams obs (OBS_IMAGES @ ''.'' @ b) =
     Some (Zeros (height cam) (width cam) (channels cam))"
proof (induction cams arbitrary: obs)
  case Nil
  then show ?case by simp
next
  case (Cons cc cams)
  obtain c cm where cc: "cc = (c, cm)" by (cases cc)
  show ?case
  proof (cases "(b, cam) = (c, cm)")
    case True
    with Cons.prems cc have nin: "b \<notin> fst ` set cams" by auto
    let ?obs' = "obs(OBS_IMAGES @ ''.'' @ b \<mapsto> Zeros (height cam) (width cam) (channels cam))"
    have "camera_loop frames (cc # cams) obs = camera_loop frames cams ?obs'"
      using True cc Cons.prems(1) by (simp add: Let_def)
    then show ?thesis using camera_loop_other [OF nin, of frames ?obs'] by simp
  next
    case False
    with Cons.prems cc have "(b, cam) \<in> set cams" "distinct (map fst cams)" by auto
    then show ?thesis using Cons.IH [OF Cons.prems(1)] cc by (simp add: Let_def)
  qed
qed

lemma drain_append: "drain (pending @ [msg]) l = Some msg"
  by (induction pending arbitrary: l) simp_all


text \<open>
  Claim C1, as the code has it. Take a message that \<^verbatim>\<open>json.loads\<close> parses to a dict
  with an arm state that \<^verbatim>\<open>torch.tensor\<close> accepts, and whose image payloads raise no
  exception. If camera \<open>a\<close> has a payload that decodes to the frame \<open>f\<close> and camera \<open>b\<close>
  one that is empty or does not decode, then \<^verbatim>\<open>get_data\<close> returns and caches a frame
  dict that has \<open>f\<close> for \<open>a\<close> and no entry for \<open>b\<close>, whatever the cache held before.
  If moreover the daemon is connected, the arm state is a tensor of one dimension and
  the speeds of the message convert to a body velocity, then \<^verbatim>\<open>get_observation\<close>
  returns an observation, and it has the image of zeros of the configured shape for
  \<open>b\<close>.
\<close>

theorem partial_decode:
  assumes "json_loads L msg = Inr (JDict kvs)" and "msg \<noteq> []"
    and "map_of kvs ''images'' = Some (JDict imgs)" and "distinct (map fst imgs)"
    and "\<forall>p \<in> snd ` set imgs. truthy p \<longrightarrow> (\<exists>r. imdecode_b64 L p = Inr r)"
    and "map_of kvs ''follower_arm_state'' = Some arm" and "arm \<noteq> JNull"
    and "torch_tensor L arm = Inr t"
    and "(a, pa) \<in> set imgs" and "truthy pa" and "imdecode_b64 L pa = Inr (Some f)"
    and "(b, pb) \<in> set imgs" and "\<not> truthy pb \<or> imdecode_b64 L pb = Inr None"
    and "(b, cam) \<in> set (cameras self)" and "distinct (map fst (cameras self))"
    and "speed = (case map_of kvs ''present_speed'' of None \<Rightarrow> JDict [] | Some v \<Rightarrow> v)"
  shows "\<exists>frames self'.
           get_data L self True (pending @ [msg]) = ((frames, speed, t), self') \<and>
           last_frames self' = frames \<and> frames a = Some f \<and> frames b = None \<and>
           (is_connected self \<and> (\<exists>n xs. t = Tensor [n] xs) \<and>
            (\<exists>v. wheel_raw_to_body L speed (5 / 100) (125 / 1000) = Inr v) \<longrightarrow>
              (\<exists>obs_dict.
                 get_observation L self True (pending @ [msg]) = (Inr obs_dict, self') \<and>
                 obs_dict (OBS_IMAGES @ ''.'' @ b) =
                   Some (Zeros (height cam) (width cam) (channels cam))))"
proof -
  from convert_images_succeeds [OF assms(5)]
  obtain frames where fr: "convert_images L imgs Map.empty = Inr frames" by blast
  have fa: "frames a = Some f"
    by (rule convert_images_valid [OF fr assms(4) assms(9) assms(10) assms(11)])
  have "\<forall>p. (b, p) \<in> set imgs \<longrightarrow> \<not> truthy p \<or> imdecode_b64 L p = Inr None"
  proof (intro allI impI)
    fix p assume "(b, p) \<in> set imgs"
    with assms(4) assms(12) have "p = pb" by (meson eq_key_imp_eq_value)
    with assms(13) show "\<not> truthy p \<or> imdecode_b64 L p = Inr None" by simp
  qed
  from convert_images_corrupt [OF fr this] have fb: "frames b = None" by simp
  let ?self' = "self\<lparr>last_frames := frames, last_remote_arm_state := t,
                     last_present_speed := speed\<rparr>"
  have dm: "decode_message L self msg = (Inr (frames, speed, t), ?self')"
    using assms(1,3,6,7,8) fr by (simp add: decode_message_def Let_def assms(16))
  have gd: "get_data L self True (pending @ [msg]) = ((frames, speed, t), ?self')"
    using assms(2) dm by (simp add: get_data_def drain_append)
  have cl: "camera_loop frames (cameras ?self') obs (OBS_IMAGES @ ''.'' @ b) =
             Some (Zeros (height cam) (width cam) (channels cam))" for obs
    using camera_loop_missing [of frames b cam "cameras self" obs] fb assms(14,15) by simp
  have go: "\<exists>obs_dict.
      get_observation L self True (pending @ [msg]) = (Inr obs_dict, ?self') \<and>
      obs_dict (OBS_IMAGES @ ''.'' @ b) = Some (Zeros (height cam) (width cam) (channels cam))"
    if c: "is_connected self" and sh: "\<exists>n xs. t = Tensor [n] xs"
      and w: "\<exists>v. wheel_raw_to_body L speed (5 / 100) (125 / 1000) = Inr v"
  proof -
    from sh obtain n xs where t: "t = Tensor [n] xs" by blast
    from w obtain x y theta where v: "wheel_raw_to_body L speed (5 / 100) (125 / 1000) = Inr (x, y, theta)"
      by (metis prod_cases3)
    have cams: "cameras ?self' = cameras self" by simp
    have "get_observation L self True (pending @ [msg]) =
        (Inr (camera_loop frames (cameras self)
               [OBS_STATE \<mapsto> Numbers (Tensor [n + 3] (xs @ [x * 1000, y * 1000, theta]))]),
         ?self')"
      using get_observation_eq [OF c gd [unfolded t] v] by (simp add: t)
    moreover have "camera_loop frames (cameras self)
               [OBS_STATE \<mapsto> Numbers (Tensor [n + 3] (xs @ [x * 1000, y * 1000, theta]))]
               (OBS_IMAGES @ ''.'' @ b) = Some (Zeros (height cam) (width cam) (channels cam))"
      using cl [of "[OBS_STATE \<mapsto> Numbers (Tensor [n + 3] (xs @ [x * 1000, y * 1000, theta]))]"]
      by (simp only: cams)
    ultimately show ?thesis by blast
  qed
  show ?thesis using gd fa fb go by auto
qed


lemma payloads_nonempty: "bmp_b64 \<noteq> []" "zeros_b64 \<noteq> []"
  by (simp_all add: zeros_b64_def bmp_b64_def)

lemma lib0_tensor_zeros:
  "torch_tensor lib0 (JList [JInt 0, JInt 0, JInt 0, JInt 0, JInt 0, JInt 0]) =
     Inr (Tensor [6] [0, 0, 0, 0, 0, 0])"
  by (simp add: lib0_tensor_list)

lemma daemon2_cameras:
  "cameras daemon2 = [(''front'', front_camera), (''wrist'', wrist_camera)]"
  by (simp add: daemon2_def daemon1_def daemon0_def connect_def init_def)

lemma speed_partial:
  "wheel_raw_to_body lib0 (JDict [(''1'', JInt 0), (''2'', JInt 0), (''3'', JInt 0)])
     (5 / 100) (125 / 1000) = Inr (0, 0, 0)"
  by (simp add: wheel_raw_to_body_zero [OF raw_list_agent_keys])

theorem partial_decode_witness:
  "is_connected daemon2 \<and>
   (\<exists>frames self' obs_dict.
     get_data lib0 daemon2 True ([] @ [msg_partial]) =
       ((frames, JDict [(''1'', JInt 0), (''2'', JInt 0), (''3'', JInt 0)],
         Tensor [6] [0, 0, 0, 0, 0, 0]), self') \<and>
     last_frames self' = frames \<and> frames ''front'' = Some 11 \<and> frames ''wrist'' = None \<and>
     get_observation lib0 daemon2 True ([] @ [msg_partial]) = (Inr obs_dict, self') \<and>
     obs_dict (OBS_IMAGES @ ''.'' @ ''wrist'') =
       Some (Zeros (height wrist_camera) (width wrist_camera) (channels wrist_camera)))"
proof -
  have "\<exists>frames self'.
     get_data lib0 daemon2 True ([] @ [msg_partial]) =
       ((frames, JDict [(''1'', JInt 0), (''2'', JInt 0), (''3'', JInt 0)],
         Tensor [6] [0, 0, 0, 0, 0, 0]), self') \<and>
     last_frames self' = frames \<and> frames ''front'' = Some 11 \<and> frames ''wrist'' = None \<and>
     (is_connected daemon2 \<and> (\<exists>n xs. Tensor [6] [0, 0, 0, 0, 0, 0] = Tensor [n] xs) \<and>
      (\<exists>v. wheel_raw_to_body lib0 (JDict [(''1'', JInt 0), (''2'', JInt 0), (''3'', JInt 0)])
             (5 / 100) (125 / 1000) = Inr v) \<longrightarrow>
        (\<exists>obs_dict.
           get_observation lib0 daemon2 True ([] @ [msg_partial]) = (Inr obs_dict, self') \<and>
           obs_dict (OBS_IMAGES @ ''.'' @ ''wrist'') =
             Some (Zeros (height wrist_camera) (width wrist_camera) (channels wrist_camera))))"
    by (rule partial_decode [where L = lib0 and msg = msg_partial and self = daemon2
          and kvs = "[(''images'', JDict [(''front'', JStr bmp_b64), (''wrist'', JStr zeros_b64)]),
            (''present_speed'', JDict [(''1'', JInt 0), (''2'', JInt 0), (''3'', JInt 0)]),
            (''follower_arm_state'', JList [JInt 0, JInt 0, JInt 0, JInt 0, JInt 0, JInt 0])]"
          and imgs = "[(''front'', JStr bmp_b64), (''wrist'', JStr zeros_b64)]"
          and arm = "JList [JInt 0, JInt 0, JInt 0, JInt 0, JInt 0, JInt 0]"
          and a = "''front''" and pa = "JStr bmp_b64" and f = 11
          and b = "''wrist''" and pb = "JStr zeros_b64" and cam = wrist_camera])
      (simp_all add: lib0_loads loads0_partial json_partial_def msg_partial_nonempty
        lib0_imdecode lib0_tensor_zeros daemon2_cameras payloads_nonempty zeros_not_bmp)
  moreover have "\<exists>n xs. Tensor [6] [0, 0, 0, 0, 0, 0 :: real] = Tensor [n] xs" by blast
  ultimately show ?thesis
    using daemon2_connected speed_partial by blast
qed

lemma decode_partial:
  "decode_message lib0 self msg_partial =
     (Inr ([''front'' \<mapsto> 11], JDict [(''1'', JInt 0), (''2'', JInt 0), (''3'', JInt 0)],
           Tensor [6] [0, 0, 0, 0, 0, 0]),
      self\<lparr>last_frames := [''front'' \<mapsto> 11],
           last_remote_arm_state := Tensor [6] [0, 0, 0, 0, 0, 0],
           last_present_speed := JDict [(''1'', JInt 0), (''2'', JInt 0), (''3'', JInt 0)]\<rparr>)"
  by (simp add: decode_message_def lib0_loads loads0_partial json_partial_def lib0_imdecode
      lib0_tensor_zeros payloads_nonempty zeros_not_bmp Let_def)

lemma get_data_partial:
  "get_data lib0 self True [msg_partial] =
     (([''front'' \<mapsto> 11], JDict [(''1'', JInt 0), (''2'', JInt 0), (''3'', JInt 0)],
       Tensor [6] [0, 0, 0, 0, 0, 0]),
      self\<lparr>last_frames := [''front'' \<mapsto> 11],
           last_remote_arm_state := Tensor [6] [0, 0, 0, 0, 0, 0],
           last_present_speed := JDict [(''1'', JInt 0), (''2'', JInt 0), (''3'', JInt 0)]\<rparr>)"
  by (simp add: get_data_def decode_partial msg_partial_nonempty)

text \<open>
  Claim C1 as stated fails at the first example message: the daemon had cached the frame 8
  of the wrist camera, the payload of the wrist camera does not decode, and afterwards
  the cache has no frame of the wrist camera and \<^verbatim>\<open>get_observation\<close> returns the image
  of zeros for it.
\<close>

theorem partial_decode_counterexample:
  "last_frames daemon2 ''wrist'' = Some 8 \<and>
   last_frames (snd (get_data lib0 daemon2 True [msg_partial])) ''wrist'' = None \<and>
   observed (get_observation lib0 daemon2 True [msg_partial]) ''observation.images.wrist'' =
     Some (Zeros 240 320 3)"
proof -
  have 1: "last_frames daemon2 ''wrist'' = Some 8"
    by (simp add: daemon2_def)
  have 2: "last_frames (snd (get_data lib0 daemon2 True [msg_partial])) ''wrist'' = None"
    by (simp add: get_data_partial)
  have 3: "observed (get_observation lib0 daemon2 True [msg_partial]) ''observation.images.wrist'' =
     Some (Zeros 240 320 3)"
    by (simp add: get_observation_eq [OF daemon2_connected get_data_partial speed_partial]
        daemon2_cameras Let_def OBS_IMAGES_def wrist_camera_def)
  show ?thesis using 1 2 3 by blast
qed

section \<open>Arm positions\<close>

lemma bus0_simps:
  "json_loads bus0 = loads1" "bus_write bus0 motor pos = None" "set_velocity bus0 v = None"
  by (simp_all add: bus0_def)

lemma bus1_simps:
  "json_loads bus1 = loads1"
  "bus_write bus1 motor pos = (if motor = ''elbow_flex'' then Some RuntimeError else None)"
  "set_velocity bus1 v = (if v = [200, 0, 0] then Some RuntimeError else None)"
  by (simp_all add: bus1_def)

lemma loads1_three: "loads1 msg_three = Inr json_three"
  by (simp add: loads1_def)

lemma loads1_six: "loads1 msg_six = Inr json_six"
  by (simp add: loads1_def msg_six_def msg_three_def)

lemma loads1_seven: "loads1 msg_seven = Inr json_seven"
  by (simp add: loads1_def msg_seven_def msg_six_def msg_three_def)



text \<open>
  Claim C9 as stated fails at a message with seven arm positions: the count does not
  match the six motors, and the first six positions are written.
\<close>

theorem arm_positions_counterexample:
  "length [JInt 1, JInt 2, JInt 3, JInt 4, JInt 5, JInt 6, JInt 7] \<noteq> length arm_motor_ids \<and>
   process_message bus0 msg_seven =
     ([Goal_Position ''shoulder_pan'' (JInt 1), Goal_Position ''shoulder_lift'' (JInt 2),
       Goal_Position ''elbow_flex'' (JInt 3), Goal_Position ''wrist_flex'' (JInt 4),
       Goal_Position ''wrist_roll'' (JInt 5), Goal_Position ''gripper'' (JInt 6)], False)"
  by (simp add: process_message_def bus0_simps loads1_seven json_seven_def
      arm_positions_block_def raw_velocity_block_def arm_motor_ids_def)

lemma write_loop_only_writes:
  "ev \<in> set (fst (write_loop B mps)) \<Longrightarrow> \<exists>motor pos. ev = Goal_Position motor pos \<and> (motor, pos) \<in> set mps"
proof (induction mps arbitrary: ev)
  case Nil
  then show ?case by simp
next
  case (Cons mp mps)
  obtain m p where mp: "mp = (m, p)" by (cases mp)
  show ?case
  proof (cases "bus_write B m p")
    case (Some e)
    with Cons.prems mp show ?thesis by simp
  next
    case None
    with Cons.prems mp have "ev = Goal_Position m p \<or> ev \<in> set (fst (write_loop B mps))"
      by (auto split: prod.splits)
    then show ?thesis
    proof
      assume "ev = Goal_Position m p"
      then show ?thesis using mp by auto
    next
      assume "ev \<in> set (fst (write_loop B mps))"
      from Cons.IH [OF this] show ?thesis by auto
    qed
  qed
qed

lemma raw_velocity_block_events:
  "fst (raw_velocity_block B data) = [] \<or>
   (\<exists>speeds. fst (raw_velocity_block B data) = [Set_Velocity speeds] \<and>
      (set_velocity B speeds = None \<longrightarrow> snd (snd (raw_velocity_block B data))))"
  by (auto simp: raw_velocity_block_def split: sum.splits bool.splits option.splits)


lemma arm_positions_block_dict:
  assumes "map_of kvs ''arm_positions'' = Some ap"
  shows "arm_positions_block B (JDict kvs) =
     (case ap of
        JList ps \<Rightarrow>
          if length ps < length arm_motor_ids then ([Print WARNING_arm_positions_count], None)
          else write_loop B (zip arm_motor_ids ps)
      | _ \<Rightarrow> ([Print ERROR_invalid_arm_positions], None))"
  using assms by (simp add: arm_positions_block_def)

lemma process_message_goal_positions:
  assumes "json_loads B msg = Inr data"
    and "Goal_Position motor pos \<in> set (fst (process_message B msg))"
  shows "Goal_Position motor pos \<in> set (fst (arm_positions_block B data))"
proof -
  have "Goal_Position motor pos \<notin> set (fst (raw_velocity_block B data))"
    using raw_velocity_block_events [of B data] by auto
  then show ?thesis using assms
    by (auto simp: process_message_def split: prod.splits option.splits)
qed


lemma write_loop_eq:
  "write_loop B mps =
     (map (\<lambda>(motor, pos). Goal_Position motor pos) (attempted B mps),
      case dropWhile (\<lambda>(motor, pos). bus_write B motor pos = None) mps of
        [] \<Rightarrow> None
      | (motor, pos) # rest \<Rightarrow> bus_write B motor pos)"
proof (induction mps)
  case Nil
  then show ?case by (simp add: attempted_def)
next
  case (Cons mp mps)
  obtain m p where mp: "mp = (m, p)" by (cases mp)
  show ?case
  proof (cases "bus_write B m p")
    case None
    then show ?thesis using Cons.IH mp by (simp add: attempted_def)
  next
    case (Some e)
    then show ?thesis using mp by (simp add: attempted_def)
  qed
qed

lemma write_loop_error:
  "snd (write_loop B mps) = None \<longleftrightarrow> (\<forall>(motor, pos) \<in> set mps. bus_write B motor pos = None)"
proof (induction mps)
  case Nil
  then show ?case by simp
next
  case (Cons mp mps)
  obtain m p where mp: "mp = (m, p)" by (cases mp)
  obtain evs r where wl: "write_loop B mps = (evs, r)" by (cases "write_loop B mps")
  show ?case
  proof (cases "bus_write B m p")
    case None
    then show ?thesis using Cons.IH mp wl by simp
  next
    case (Some e)
    then show ?thesis using mp by simp
  qed
qed

lemma attempted_all:
  assumes "\<forall>(motor, pos) \<in> set mps. bus_write B motor pos = None"
  shows "attempted B mps = mps"
proof -
  let ?ok = "\<lambda>(motor, pos). bus_write B motor pos = None"
  have t: "takeWhile ?ok mps = mps"
    using assms by (intro takeWhile_eq_all_conv [THEN iffD2]) auto
  have d: "dropWhile ?ok mps = []"
    using assms by (intro dropWhile_eq_Nil_conv [THEN iffD2]) auto
  show ?thesis unfolding attempted_def t d by simp
qed

lemma process_message_write_raises:
  assumes "json_loads B msg = Inr data" and "snd (arm_positions_block B data) = Some e"
  shows "process_message B msg =
           (fst (arm_positions_block B data) @ [Print Error_parsing_message], False)"
  using assms by (cases "arm_positions_block B data") (simp add: process_message_def)

text \<open>
  Claim C9, as the code has it. For a command message that is a dict with the key
  \<^verbatim>\<open>arm_positions\<close>: a list shorter than the six motors is answered with the warning,
  a value that is no list with the error print, and in both cases nothing is written and
  no exception arises. A list of six or more positions has its first six written, one to
  each motor in order, up to and with the first write that raises: all six when no write
  raises. An exception of a write is caught: the message is answered with the print of
  the handler, and the rest of it is skipped. Every position the message causes to be
  written comes from a list of six or more. The handling of a message never raises:
  \<^verbatim>\<open>process_message\<close> returns the calls made.
\<close>

theorem arm_positions_dispatch:
  assumes "json_loads B msg = Inr (JDict kvs)" and "map_of kvs ''arm_positions'' = Some ap"
  shows "(\<forall>ps. ap = JList ps \<and> length ps < length arm_motor_ids \<longrightarrow>
            arm_positions_block B (JDict kvs) = ([Print WARNING_arm_positions_count], None)) \<and>
         ((\<forall>ps. ap \<noteq> JList ps) \<longrightarrow>
            arm_positions_block B (JDict kvs) = ([Print ERROR_invalid_arm_positions], None)) \<and>
         (\<forall>ps. ap = JList ps \<and> length arm_motor_ids \<le> length ps \<longrightarrow>
            length (zip arm_motor_ids ps) = 6 \<and>
            fst (arm_positions_block B (JDict kvs)) =
              map (\<lambda>(motor, pos). Goal_Position motor pos)
                (attempted B (zip arm_motor_ids ps)) \<and>
            (snd (arm_positions_block B (JDict kvs)) = None \<longleftrightarrow>
               (\<forall>(motor, pos) \<in> set (zip arm_motor_ids ps). bus_write B motor pos = None)) \<and>
            ((\<forall>(motor, pos) \<in> set (zip arm_motor_ids ps). bus_write B motor pos = None) \<longrightarrow>
               attempted B (zip arm_motor_ids ps) = zip arm_motor_ids ps)) \<and>
         (\<forall>e. snd (arm_positions_block B (JDict kvs)) = Some e \<longrightarrow>
            process_message B msg =
              (fst (arm_positions_block B (JDict kvs)) @ [Print Error_parsing_message], False)) \<and>
         (\<forall>motor pos. Goal_Position motor pos \<in> set (fst (process_message B msg)) \<longrightarrow>
            (\<exists>ps. ap = JList ps \<and> length arm_motor_ids \<le> length ps \<and>
                  (motor, pos) \<in> set (zip arm_motor_ids ps)))"
proof -
  note blk = arm_positions_block_dict [OF assms(2), of B]
  have a: "\<forall>ps. ap = JList ps \<and> length ps < length arm_motor_ids \<longrightarrow>
            arm_positions_block B (JDict kvs) = ([Print WARNING_arm_positions_count], None)"
    by (simp add: blk)
  have b: "(\<forall>ps. ap \<noteq> JList ps) \<longrightarrow>
            arm_positions_block B (JDict kvs) = ([Print ERROR_invalid_arm_positions], None)"
    by (cases ap) (simp_all add: blk)
  have c: "length (zip arm_motor_ids ps) = 6 \<and>
            fst (arm_positions_block B (JDict kvs)) =
              map (\<lambda>(motor, pos). Goal_Position motor pos)
                (attempted B (zip arm_motor_ids ps)) \<and>
            (snd (arm_positions_block B (JDict kvs)) = None \<longleftrightarrow>
               (\<forall>(motor, pos) \<in> set (zip arm_motor_ids ps). bus_write B motor pos = None)) \<and>
            ((\<forall>(motor, pos) \<in> set (zip arm_motor_ids ps). bus_write B motor pos = None) \<longrightarrow>
               attempted B (zip arm_motor_ids ps) = zip arm_motor_ids ps)"
    if "ap = JList ps \<and> length arm_motor_ids \<le> length ps" for ps
  proof -
    from that have ap: "ap = JList ps" and le: "length arm_motor_ids \<le> length ps" by simp_all
    have e: "arm_positions_block B (JDict kvs) = write_loop B (zip arm_motor_ids ps)"
      using ap le by (simp add: blk)
    have l: "length (zip arm_motor_ids ps) = 6"
      using le by (simp add: arm_motor_ids_def)
    show ?thesis
      unfolding e using l write_loop_error [of B "zip arm_motor_ids ps"]
      by (simp add: write_loop_eq [of B "zip arm_motor_ids ps"] attempted_all)
  qed
  have p: "\<forall>e. snd (arm_positions_block B (JDict kvs)) = Some e \<longrightarrow>
            process_message B msg =
              (fst (arm_positions_block B (JDict kvs)) @ [Print Error_parsing_message], False)"
    using process_message_write_raises [OF assms(1)] by blast
  have d: "\<exists>ps. ap = JList ps \<and> length arm_motor_ids \<le> length ps \<and>
                  (motor, pos) \<in> set (zip arm_motor_ids ps)"
    if "Goal_Position motor pos \<in> set (fst (process_message B msg))" for motor pos
  proof -
    from process_message_goal_positions [OF assms(1) that]
    have g: "Goal_Position motor pos \<in> set (fst (arm_positions_block B (JDict kvs)))" .
    show ?thesis
    proof (cases ap)
      case (JList ps)
      show ?thesis
      proof (cases "length ps < length arm_motor_ids")
        case True
        with g JList show ?thesis by (simp add: blk)
      next
        case False
        with g JList have "Goal_Position motor pos \<in> set (fst (write_loop B (zip arm_motor_ids ps)))"
          by (simp add: blk)
        from write_loop_only_writes [OF this] False JList show ?thesis by auto
      qed
    qed (use g in \<open>simp_all add: blk\<close>)
  qed
  show ?thesis using a b c p d by blast
qed

lemma process_six_bus1:
  "process_message bus1 msg_six =
     ([Goal_Position ''shoulder_pan'' (JInt 1), Goal_Position ''shoulder_lift'' (JInt 2),
       Goal_Position ''elbow_flex'' (JInt 3), Print Error_parsing_message], False)"
  by (simp add: process_message_def bus1_simps loads1_six json_six_def
      arm_positions_block_def arm_motor_ids_def)

theorem arm_positions_dispatch_witness:
  "length arm_motor_ids \<le> length [JInt 1, JInt 2, JInt 3, JInt 4, JInt 5, JInt 6] \<and>
   fst (arm_positions_block bus1 json_six) =
     [Goal_Position ''shoulder_pan'' (JInt 1), Goal_Position ''shoulder_lift'' (JInt 2),
      Goal_Position ''elbow_flex'' (JInt 3)] \<and>
   snd (arm_positions_block bus1 json_six) = Some RuntimeError \<and>
   process_message bus1 msg_six =
     ([Goal_Position ''shoulder_pan'' (JInt 1), Goal_Position ''shoulder_lift'' (JInt 2),
       Goal_Position ''elbow_flex'' (JInt 3), Print Error_parsing_message], False) \<and>
   length [JInt 1, JInt 2, JInt 3] < length arm_motor_ids \<and>
   arm_positions_block bus0 json_three = ([Print WARNING_arm_positions_count], None)"
proof -
  have h1: "json_loads bus1 msg_six =
      Inr (JDict [(''arm_positions'', JList [JInt 1, JInt 2, JInt 3, JInt 4, JInt 5, JInt 6])])"
    by (simp add: bus1_simps loads1_six json_six_def)
  have h2: "map_of [(''arm_positions'', JList [JInt 1, JInt 2, JInt 3, JInt 4, JInt 5, JInt 6])]
      ''arm_positions'' = Some (JList [JInt 1, JInt 2, JInt 3, JInt 4, JInt 5, JInt 6])"
    by simp
  have l6: "length arm_motor_ids \<le> length [JInt 1, JInt 2, JInt 3, JInt 4, JInt 5, JInt 6]"
    by (simp add: arm_motor_ids_def)
  have at: "attempted bus1 (zip arm_motor_ids [JInt 1, JInt 2, JInt 3, JInt 4, JInt 5, JInt 6]) =
      [(''shoulder_pan'', JInt 1), (''shoulder_lift'', JInt 2), (''elbow_flex'', JInt 3)]"
    by (simp add: attempted_def arm_motor_ids_def bus1_simps)
  have er: "snd (arm_positions_block bus1 json_six) = Some RuntimeError"
    by (simp add: arm_positions_block_def json_six_def arm_motor_ids_def bus1_simps)
  have g1: "json_loads bus0 msg_three = Inr (JDict [(''arm_positions'', JList [JInt 1, JInt 2, JInt 3])])"
    by (simp add: bus0_simps loads1_three json_three_def)
  have g2: "map_of [(''arm_positions'', JList [JInt 1, JInt 2, JInt 3])] ''arm_positions'' =
      Some (JList [JInt 1, JInt 2, JInt 3])"
    by simp
  have l3: "length [JInt 1, JInt 2, JInt 3] < length arm_motor_ids"
    by (simp add: arm_motor_ids_def)
  note six = arm_positions_dispatch [OF h1 h2, THEN conjunct2, THEN conjunct2, THEN conjunct1,
      rule_format, of "[JInt 1, JInt 2, JInt 3, JInt 4, JInt 5, JInt 6]"]
  have "fst (arm_positions_block bus1
          (JDict [(''arm_positions'', JList [JInt 1, JInt 2, JInt 3, JInt 4, JInt 5, JInt 6])])) =
        map (\<lambda>(motor, pos). Goal_Position motor pos)
          (attempted bus1 (zip arm_motor_ids [JInt 1, JInt 2, JInt 3, JInt 4, JInt 5, JInt 6]))"
    using six l6 by blast
  then have w6: "fst (arm_positions_block bus1 json_six) =
     [Goal_Position ''shoulder_pan'' (JInt 1), Goal_Position ''shoulder_lift'' (JInt 2),
      Goal_Position ''elbow_flex'' (JInt 3)]"
    by (simp only: at json_six_def) simp
  note three = arm_positions_dispatch [OF g1 g2, THEN conjunct1, rule_format,
      of "[JInt 1, JInt 2, JInt 3]"]
  have w3: "arm_positions_block bus0 json_three = ([Print WARNING_arm_positions_count], None)"
    using three l3 by (simp only: json_three_def)
  show ?thesis using l6 w6 er process_six_bus1 l3 w3 by blast
qed

section \<open>The watchdog\<close>
























end
